theory Spec2Isabelle
  imports Complex_Main
begin

section \<open>JavaScript values\<close>

text \<open>
  A JavaScript number is modelled by its mathematical value: \<open>Fin q\<close> for a finite
  number, the two infinities and \<open>NaN\<close>. Sums and products of finite numbers are exact;
  the rounding to binary64 and the overflow of a finite operation are not part of the
  model, and \<open>-0\<close> is \<open>0\<close>.
\<close>

datatype number = NaN | NInf | Fin rat | PInf

fun num_add :: "number \<Rightarrow> number \<Rightarrow> number" where
  "num_add NaN _ = NaN"
| "num_add _ NaN = NaN"
| "num_add (Fin a) (Fin b) = Fin (a + b)"
| "num_add (Fin a) b = b"
| "num_add a (Fin b) = a"
| "num_add PInf PInf = PInf"
| "num_add NInf NInf = NInf"
| "num_add PInf NInf = NaN"
| "num_add NInf PInf = NaN"

fun num_neg :: "number \<Rightarrow> number" where
  "num_neg NaN = NaN"
| "num_neg NInf = PInf"
| "num_neg PInf = NInf"
| "num_neg (Fin a) = Fin (- a)"

fun num_mul :: "number \<Rightarrow> number \<Rightarrow> number" where
  "num_mul NaN _ = NaN"
| "num_mul _ NaN = NaN"
| "num_mul (Fin a) (Fin b) = Fin (a * b)"
| "num_mul (Fin a) b = (if a = 0 then NaN else if 0 < a then b else num_neg b)"
| "num_mul a (Fin b) = (if b = 0 then NaN else if 0 < b then a else num_neg a)"
| "num_mul PInf b = b"
| "num_mul NInf b = num_neg b"

text \<open>The comparisons \<open>x <= 0\<close> and \<open>x > 0\<close> on numbers; both are false at \<open>NaN\<close>.\<close>

fun num_le0 :: "number \<Rightarrow> bool" where
  "num_le0 NaN = False"
| "num_le0 NInf = True"
| "num_le0 (Fin a) = (a \<le> 0)"
| "num_le0 PInf = False"

fun num_gt0 :: "number \<Rightarrow> bool" where
  "num_gt0 NaN = False"
| "num_gt0 NInf = False"
| "num_gt0 (Fin a) = (0 < a)"
| "num_gt0 PInf = True"

text \<open>
  The values a field of a product or a member of a parsed JSON text can hold. An object
  lists each of its own properties once, in enumeration order.
\<close>

datatype jsval =
    Undefined
  | Null
  | Bool bool
  | Num number
  | Str string
  | Arr "jsval list"
  | Obj "(string \<times> jsval) list"

fun is_object :: "jsval \<Rightarrow> bool" where
  "is_object (Arr _) = True"
| "is_object (Obj _) = True"
| "is_object _ = False"

text \<open>
  \<open>ToNumber\<close> on the primitive values that are not strings. The conversion of a string
  or of an object goes through the platform's string-to-number and object-to-primitive
  conversions (the second can raise a TypeError); these are outside the model, and
  \<open>None\<close> marks them.
\<close>

fun ToNumber :: "jsval \<Rightarrow> number option" where
  "ToNumber Undefined = Some NaN"
| "ToNumber Null = Some (Fin 0)"
| "ToNumber (Bool b) = Some (Fin (if b then 1 else 0))"
| "ToNumber (Num n) = Some n"
| "ToNumber (Str _) = None"
| "ToNumber (Arr _) = None"
| "ToNumber (Obj _) = None"

text \<open>\<open>a + b\<close>, \<open>a * b\<close> and \<open>a <= 0\<close> where no operand is a string or an object.\<close>

definition js_plus :: "jsval \<Rightarrow> jsval \<Rightarrow> number option" where
  "js_plus a b =
     (case (ToNumber a, ToNumber b) of
        (Some x, Some y) \<Rightarrow> Some (num_add x y)
      | _ \<Rightarrow> None)"

definition js_times :: "jsval \<Rightarrow> jsval \<Rightarrow> number option" where
  "js_times a b =
     (case (ToNumber a, ToNumber b) of
        (Some x, Some y) \<Rightarrow> Some (num_mul x y)
      | _ \<Rightarrow> None)"

definition js_le0 :: "jsval \<Rightarrow> bool option" where
  "js_le0 a = map_option num_le0 (ToNumber a)"

section \<open>Helpers: parsePrice\<close>

text \<open>
  \<^verbatim>\<open>
  function parsePrice(priceStr) {
    if (!priceStr) return 0;
    const cleaned = priceStr.toString().replace(/[^\d.,]/g, '').replace(',', '.');
    return Number(parseFloat(cleaned)) || 0;
  }
  \<close>
  The argument is a text or \<open>null\<close>/\<open>undefined\<close> (\<open>None\<close>): the one caller passes the
  \<open>textContent\<close> of an element.
\<close>

definition is_digit :: "char \<Rightarrow> bool" where
  "is_digit c = (c \<in> set ''0123456789'')"

text \<open>The characters the regular expression \<open>/[^\d.,]/g\<close> leaves in place.\<close>

definition kept :: "char \<Rightarrow> bool" where
  "kept c = (is_digit c \<or> c = CHR ''.'' \<or> c = CHR '','')"

text \<open>\<open>replace(',', '.')\<close> with a string pattern: the first occurrence only.\<close>

fun replace_first :: "string \<Rightarrow> string" where
  "replace_first [] = []"
| "replace_first (c # cs) = (if c = CHR '','' then CHR ''.'' # cs else c # replace_first cs)"

definition digit_val :: "char \<Rightarrow> nat" where
  "digit_val c = of_char c - 48"

definition digits_val :: "string \<Rightarrow> nat" where
  "digits_val ds = foldl (\<lambda>a c. 10 * a + digit_val c) 0 ds"

text \<open>
  \<open>parseFloat\<close> on a text of digits, dots and commas: the longest prefix that is a decimal
  literal (digits, then optionally a dot and digits; or a dot and at least one digit),
  \<open>NaN\<close> when there is none. \<open>literal_value ip r\<close> is the value read when the text is
  the digits \<open>ip\<close> followed by \<open>r\<close>, which does not start with a digit. No sign, exponent, white space or \<open>Infinity\<close> can stand in
  such a text.
\<close>

definition literal_value :: "string \<Rightarrow> string \<Rightarrow> number" where
  "literal_value ip r =
     (case r of
        c # r' \<Rightarrow>
          if c = CHR ''.'' then
            (let fp = takeWhile is_digit r' in
             if ip = [] \<and> fp = [] then NaN
             else Fin (of_nat (digits_val ip) + of_nat (digits_val fp) / 10 ^ length fp))
          else if ip = [] then NaN else Fin (of_nat (digits_val ip))
      | [] \<Rightarrow> if ip = [] then NaN else Fin (of_nat (digits_val ip)))"

definition parseFloat :: "string \<Rightarrow> number" where
  "parseFloat s = literal_value (takeWhile is_digit s) (dropWhile is_digit s)"

text \<open>\<open>x || 0\<close> on a number: \<open>NaN\<close> and \<open>0\<close> are falsy.\<close>

definition or_zero :: "number \<Rightarrow> number" where
  "or_zero x = (if x = NaN \<or> x = Fin 0 then Fin 0 else x)"

definition parsePrice :: "string option \<Rightarrow> number" where
  "parsePrice priceStr =
     (case priceStr of
        None \<Rightarrow> Fin 0
      | Some s \<Rightarrow>
          if s = [] then Fin 0
          else (let cleaned = replace_first (filter kept s) in or_zero (parseFloat cleaned)))"

text \<open>
  The specification's wording of the same function: strip everything but digits, dots
  and commas; a comma counts as a decimal point (here: every comma); parse; \<open>0\<close> for an
  absent, empty or unparseable text.
\<close>

definition comma_to_dot :: "char \<Rightarrow> char" where
  "comma_to_dot c = (if c = CHR '','' then CHR ''.'' else c)"

definition parsePrice_spec :: "string option \<Rightarrow> number" where
  "parsePrice_spec t =
     (case t of
        None \<Rightarrow> Fin 0
      | Some s \<Rightarrow>
          (case parseFloat (map comma_to_dot (filter kept s)) of
             NaN \<Rightarrow> Fin 0
           | x \<Rightarrow> x))"

text \<open>
  The one step of \<open>parsePrice\<close> that can raise is \<open>priceStr.toString()\<close>: a TypeError when
  \<open>priceStr\<close> is \<open>null\<close> or \<open>undefined\<close>. \<open>parsePrice_result\<close> is the function with that
  step written as a result; the test \<open>!priceStr\<close> is true of \<open>null\<close>, \<open>undefined\<close> and the
  empty text.
\<close>

datatype js_error = TypeError

definition toString :: "string option \<Rightarrow> js_error + string" where
  "toString x = (case x of None \<Rightarrow> Inl TypeError | Some s \<Rightarrow> Inr s)"

definition falsy :: "string option \<Rightarrow> bool" where
  "falsy x = (x = None \<or> x = Some [])"

definition parsePrice_result :: "string option \<Rightarrow> js_error + number" where
  "parsePrice_result priceStr =
     (if falsy priceStr then Inr (Fin 0)
      else case toString priceStr of
        Inl e \<Rightarrow> Inl e
      | Inr str \<Rightarrow>
          (let cleaned = replace_first (filter kept str) in Inr (or_zero (parseFloat cleaned))))"

text \<open>
  The number a text of decimal digits writes, defined from the last digit backwards and
  with its own table of digits: the reading of the specification's words for a parsed
  price, independent of \<open>parseFloat\<close>.
\<close>

definition digit_of :: "char \<Rightarrow> nat" where
  "digit_of c =
     (case map_of [(CHR ''0'', 0), (CHR ''1'', 1), (CHR ''2'', 2), (CHR ''3'', 3),
                   (CHR ''4'', 4), (CHR ''5'', 5), (CHR ''6'', 6), (CHR ''7'', 7),
                   (CHR ''8'', 8), (CHR ''9'', 9)] c of
        Some d \<Rightarrow> d
      | None \<Rightarrow> 0)"

fun decimal_rev :: "string \<Rightarrow> nat" where
  "decimal_rev [] = 0"
| "decimal_rev (c # cs) = digit_of c + 10 * decimal_rev cs"

definition decimal :: "string \<Rightarrow> nat" where
  "decimal ds = decimal_rev (rev ds)"

section \<open>Clase Producto\<close>

text \<open>
  \<^verbatim>\<open>
  class Producto {
    #id;
    constructor({ id, nombre, precio, categoria = 'general' }) {
      this.#id = id; this.nombre = nombre; this.precio = precio;
      this.categoria = categoria; this.cantidad = 1;
    }
    getId() { return this.#id; }
  }
  \<close>
  The default of \<open>categoria\<close> applies when the property is \<open>undefined\<close> (or absent), not
  when it is \<open>null\<close>.
\<close>

record producto =
  getId :: jsval
  nombre :: jsval
  precio :: jsval
  categoria :: jsval
  cantidad :: jsval

definition Producto :: "jsval \<Rightarrow> jsval \<Rightarrow> jsval \<Rightarrow> jsval \<Rightarrow> producto" where
  "Producto i n p c =
     \<lparr>getId = i, nombre = n, precio = p,
      categoria = (if c = Undefined then Str ''general'' else c),
      cantidad = Num (Fin 1)\<rparr>"

section \<open>Map\<close>

text \<open>
  The \<open>Map\<close> of the cart, in insertion order. Keys are compared by SameValueZero: by
  value for primitive values, by identity for objects. The model holds no object
  identities and takes two object values for two objects: so it is for the values that
  come out of \<open>JSON.parse\<close>, and the program passes strings as ids everywhere else.
\<close>

definition same_value_zero :: "jsval \<Rightarrow> jsval \<Rightarrow> bool" where
  "same_value_zero a b = (a = b \<and> \<not> is_object a)"

definition map_has :: "(jsval \<times> 'v) list \<Rightarrow> jsval \<Rightarrow> bool" where
  "map_has m k = list_ex (\<lambda>e. same_value_zero (fst e) k) m"

definition map_get :: "(jsval \<times> 'v) list \<Rightarrow> jsval \<Rightarrow> 'v option" where
  "map_get m k = map_option snd (find (\<lambda>e. same_value_zero (fst e) k) m)"

fun map_set :: "(jsval \<times> 'v) list \<Rightarrow> jsval \<Rightarrow> 'v \<Rightarrow> (jsval \<times> 'v) list" where
  "map_set [] k v = [(k, v)]"
| "map_set (e # m) k v =
     (if same_value_zero (fst e) k then (fst e, v) # m else e # map_set m k v)"

definition map_delete :: "(jsval \<times> 'v) list \<Rightarrow> jsval \<Rightarrow> (jsval \<times> 'v) list" where
  "map_delete m k = filter (\<lambda>e. \<not> same_value_zero (fst e) k) m"

section \<open>localStorage and JSON\<close>

text \<open>
  A stored text is represented by what \<open>JSON.parse\<close> makes of it: the empty text, a
  non-empty text that \<open>JSON.parse\<close> rejects with a SyntaxError, or a text that it accepts,
  with the value it returns. The encoding of a value as characters is the platform's.
\<close>

datatype stored_text = EmptyText | BadText | JsonText jsval

fun JSON_parse :: "stored_text \<Rightarrow> jsval option" where
  "JSON_parse EmptyText = None"
| "JSON_parse BadText = None"
| "JSON_parse (JsonText v) = Some v"

text \<open>
  The value that comes back from the text \<open>JSON.stringify\<close> writes for a value: a property
  whose value is \<open>undefined\<close> is left out, \<open>undefined\<close> in an array is written \<open>null\<close>, and
  so are \<open>NaN\<close> and the infinities.
\<close>

fun json_of :: "jsval \<Rightarrow> jsval" where
  "json_of Undefined = Null"
| "json_of Null = Null"
| "json_of (Bool b) = Bool b"
| "json_of (Num n) = (case n of Fin q \<Rightarrow> Num (Fin q) | _ \<Rightarrow> Null)"
| "json_of (Str s) = Str s"
| "json_of (Arr xs) = Arr (map json_of xs)"
| "json_of (Obj kvs) =
     Obj (map (\<lambda>e. (fst e, json_of (snd e))) (filter (\<lambda>e. snd e \<noteq> Undefined) kvs))"

text \<open>\<open>JSON.stringify(undefined)\<close> is \<open>undefined\<close>, which \<open>setItem\<close> would store as the text
  \<open>undefined\<close>: not a JSON text.\<close>

definition JSON_stringify :: "jsval \<Rightarrow> stored_text" where
  "JSON_stringify v = (if v = Undefined then BadText else JsonText (json_of v))"

text \<open>
  Whether \<open>localStorage\<close> works: when it is disabled every access raises, when the quota
  is exceeded \<open>setItem\<close> raises.
\<close>

datatype storage_mode = Working | QuotaExceeded | Disabled

section \<open>Clase Carrito\<close>

text \<open>
  The state the cart works on: its private \<open>Map\<close>, the text stored under the key
  \<open>skb_carrito\<close> (\<open>None\<close> when the key is absent), the state of the storage and the labels
  written with \<open>console.error\<close>.
\<close>

record world =
  items :: "(jsval \<times> producto) list"
  stored :: "stored_text option"
  storage :: storage_mode
  console :: "string list"

definition getItemsArray :: "world \<Rightarrow> producto list" where
  "getItemsArray w = map snd (items w)"

text \<open>
  \<^verbatim>\<open>
  saveToStorage() {
    try {
      const arr = this.getItemsArray().map(p => ({
        id: p.getId(), nombre: p.nombre, precio: p.precio, categoria: p.categoria, cantidad: p.cantidad
      }));
      localStorage.setItem('skb_carrito', JSON.stringify(arr));
    } catch (e) { console.error('guardar carrito', e); }
  }
  \<close>
\<close>

definition entry_record :: "producto \<Rightarrow> jsval" where
  "entry_record p =
     Obj [(''id'', getId p), (''nombre'', nombre p), (''precio'', precio p),
          (''categoria'', categoria p), (''cantidad'', cantidad p)]"

definition saveToStorage :: "world \<Rightarrow> world" where
  "saveToStorage w =
     (let arr = map entry_record (getItemsArray w) in
      if storage w = Working then w\<lparr>stored := Some (JSON_stringify (Arr arr))\<rparr>
      else w\<lparr>console := console w @ [''guardar carrito'']\<rparr>)"

text \<open>
  \<^verbatim>\<open>
  loadFromStorage() {
    try {
      const raw = localStorage.getItem('skb_carrito'); if (!raw) return;
      const arr = JSON.parse(raw);
      for (const o of arr) {
        const p = new Producto({ id: o.id, nombre: o.nombre, precio: o.precio, categoria: o.categoria });
        p.cantidad = o.cantidad; this.#items.set(p.getId(), p);
      }
    } catch (e) { console.error('cargar carrito', e); }
  }
  \<close>
  \<open>for ... of\<close> runs over the elements of an array and over the characters of a string;
  any other parsed value is not iterable (TypeError). Reading a property of \<open>null\<close> or
  \<open>undefined\<close> is a TypeError; on any other value a property it does not have reads as
  \<open>undefined\<close>. \<open>get_prop\<close> is only used at the five names of the loop, which no
  prototype defines.
\<close>

fun iterate :: "jsval \<Rightarrow> jsval list option" where
  "iterate (Arr xs) = Some xs"
| "iterate (Str s) = Some (map (\<lambda>c. Str [c]) s)"
| "iterate _ = None"

fun nullish :: "jsval \<Rightarrow> bool" where
  "nullish Undefined = True"
| "nullish Null = True"
| "nullish _ = False"

fun get_prop :: "jsval \<Rightarrow> string \<Rightarrow> jsval" where
  "get_prop (Obj kvs) k = (case map_of kvs k of Some v \<Rightarrow> v | None \<Rightarrow> Undefined)"
| "get_prop _ k = Undefined"

definition load_error :: "world \<Rightarrow> world" where
  "load_error w = w\<lparr>console := console w @ [''cargar carrito'']\<rparr>"

definition from_record :: "jsval \<Rightarrow> producto" where
  "from_record ob =
     (Producto (get_prop ob ''id'') (get_prop ob ''nombre'') (get_prop ob ''precio'')
        (get_prop ob ''categoria''))
     \<lparr>cantidad := get_prop ob ''cantidad''\<rparr>"

fun load_loop :: "jsval list \<Rightarrow> world \<Rightarrow> world" where
  "load_loop [] w = w"
| "load_loop (ob # obs) w =
     (if nullish ob then load_error w
      else (let p = from_record ob in
            load_loop obs (w\<lparr>items := map_set (items w) (getId p) p\<rparr>)))"

definition loadFromStorage :: "world \<Rightarrow> world" where
  "loadFromStorage w =
     (if storage w = Disabled then load_error w
      else case stored w of
        None \<Rightarrow> w
      | Some raw \<Rightarrow>
          if raw = EmptyText then w
          else (case JSON_parse raw of
                  None \<Rightarrow> load_error w
                | Some arr \<Rightarrow>
                    (case iterate arr of
                       None \<Rightarrow> load_error w
                     | Some obs \<Rightarrow> load_loop obs w)))"

text \<open>\<open>constructor() { this.#items = new Map(); this.loadFromStorage(); }\<close>: a page load.\<close>

definition Carrito :: "world \<Rightarrow> world" where
  "Carrito w = loadFromStorage (w\<lparr>items := []\<rparr>)"

text \<open>
  \<^verbatim>\<open>
  add(producto) {
    const id = producto.getId();
    if (this.#items.has(id)) { this.#items.get(id).cantidad += 1; }
    else { this.#items.set(id, producto); }
    this.saveToStorage();
  }
  remove(id) { this.#items.delete(id); this.saveToStorage(); }
  updateQty(id, qty) {
    if (!this.#items.has(id)) return;
    const p = this.#items.get(id);
    p.cantidad = qty;
    if (p.cantidad <= 0) this.#items.delete(id);
    this.saveToStorage();
  }
  clear() { this.#items.clear(); this.saveToStorage(); }
  \<close>
  \<open>add\<close> and \<open>updateQty\<close> are \<open>None\<close> where they would add to, or compare, a string or an
  object (see \<open>ToNumber\<close>). The products handed to \<open>add\<close> are values: the program adds a
  fresh copy each time and keeps no reference to it.
\<close>

definition add :: "producto \<Rightarrow> world \<Rightarrow> world option" where
  "add producto w =
     (let i = getId producto in
      if map_has (items w) i then
        (case map_get (items w) i of
           None \<Rightarrow> None
         | Some p \<Rightarrow>
             (case js_plus (cantidad p) (Num (Fin 1)) of
                None \<Rightarrow> None
              | Some q \<Rightarrow>
                  Some (saveToStorage (w\<lparr>items := map_set (items w) i (p\<lparr>cantidad := Num q\<rparr>)\<rparr>))))
      else Some (saveToStorage (w\<lparr>items := map_set (items w) i producto\<rparr>)))"

text \<open>\<open>remove\<close> is named \<open>remove_id\<close> here.\<close>

definition remove_id :: "jsval \<Rightarrow> world \<Rightarrow> world" where
  "remove_id i w = saveToStorage (w\<lparr>items := map_delete (items w) i\<rparr>)"

definition updateQty :: "jsval \<Rightarrow> jsval \<Rightarrow> world \<Rightarrow> world option" where
  "updateQty i qty w =
     (if \<not> map_has (items w) i then Some w
      else case map_get (items w) i of
        None \<Rightarrow> None
      | Some p \<Rightarrow>
          (let m = map_set (items w) i (p\<lparr>cantidad := qty\<rparr>) in
           case js_le0 qty of
             None \<Rightarrow> None
           | Some b \<Rightarrow>
               Some (saveToStorage (w\<lparr>items := (if b then map_delete m i else m)\<rparr>))))"

definition clear :: "world \<Rightarrow> world" where
  "clear w = saveToStorage (w\<lparr>items := []\<rparr>)"

text \<open>
  \<^verbatim>\<open>
  getTotal() { let total = 0; for (const p of this.#items.values()) total += p.precio * p.cantidad; return total; }
  getCount() { let c = 0; for (const p of this.#items.values()) c += p.cantidad; return c; }
  \<close>
\<close>

fun total_loop :: "producto list \<Rightarrow> number \<Rightarrow> number option" where
  "total_loop [] t = Some t"
| "total_loop (p # ps) t =
     (case js_times (precio p) (cantidad p) of
        None \<Rightarrow> None
      | Some x \<Rightarrow> total_loop ps (num_add t x))"

definition getTotal :: "world \<Rightarrow> number option" where
  "getTotal w = total_loop (getItemsArray w) (Fin 0)"

fun count_loop :: "producto list \<Rightarrow> number \<Rightarrow> number option" where
  "count_loop [] c = Some c"
| "count_loop (p # ps) c =
     (case js_plus (Num c) (cantidad p) of
        None \<Rightarrow> None
      | Some x \<Rightarrow> count_loop ps x)"

definition getCount :: "world \<Rightarrow> number option" where
  "getCount w = count_loop (getItemsArray w) (Fin 0)"

section \<open>Sequences of calls\<close>

text \<open>Calling \<open>add\<close> with each product of a list, in order.\<close>

fun add_all :: "producto list \<Rightarrow> world \<Rightarrow> world option" where
  "add_all [] w = Some w"
| "add_all (p # ps) w = (case add p w of None \<Rightarrow> None | Some w' \<Rightarrow> add_all ps w')"

text \<open>The calls a page makes on its cart; \<open>Reload\<close> is a new page load, which builds the
  cart again from the storage.\<close>

datatype call = Add producto | Remove jsval | UpdateQty jsval jsval | Clear | Reload

fun call_on :: "call \<Rightarrow> world \<Rightarrow> world option" where
  "call_on (Add p) w = add p w"
| "call_on (Remove i) w = Some (remove_id i w)"
| "call_on (UpdateQty i qty) w = updateQty i qty w"
| "call_on Clear w = Some (clear w)"
| "call_on Reload w = Some (Carrito w)"

fun calls :: "call list \<Rightarrow> world \<Rightarrow> world option" where
  "calls [] w = Some w"
| "calls (c # cs) w = (case call_on c w of None \<Rightarrow> None | Some w' \<Rightarrow> calls cs w')"

section \<open>Predicates of the statements\<close>

text \<open>A whole number, and a whole number that is at least 1.\<close>

definition whole :: "jsval \<Rightarrow> bool" where
  "whole v = (case v of Num (Fin q) \<Rightarrow> of_int \<lfloor>q\<rfloor> = q | _ \<Rightarrow> False)"

definition whole_count :: "jsval \<Rightarrow> bool" where
  "whole_count v = (case v of Num (Fin q) \<Rightarrow> of_int \<lfloor>q\<rfloor> = q \<and> 1 \<le> q | _ \<Rightarrow> False)"

text \<open>Every entry of the cart has a whole quantity of at least 1.\<close>

definition quantities_ok :: "world \<Rightarrow> bool" where
  "quantities_ok w = list_all (\<lambda>e. whole_count (cantidad (snd e))) (items w)"

text \<open>Every element the loading loop would visit in the stored text has a whole
  \<open>cantidad\<close> of at least 1.\<close>

definition persisted_ok :: "world \<Rightarrow> bool" where
  "persisted_ok w =
     (case stored w of
        None \<Rightarrow> True
      | Some raw \<Rightarrow>
          (case JSON_parse raw of
             None \<Rightarrow> True
           | Some v \<Rightarrow>
               (case iterate v of
                  None \<Rightarrow> True
                | Some obs \<Rightarrow> list_all (\<lambda>ob. whole_count (get_prop ob ''cantidad'')) obs)))"

text \<open>A call as the page makes it: \<open>add\<close> with a product fresh from the constructor
  (quantity 1), \<open>updateQty\<close> with a whole number.\<close>

fun call_typed :: "call \<Rightarrow> bool" where
  "call_typed (Add p) = (cantidad p = Num (Fin 1))"
| "call_typed (UpdateQty i qty) = whole qty"
| "call_typed _ = True"

text \<open>
  A value that JSON carries unchanged, and a field that survives the codec: such a
  value, or \<open>undefined\<close> (the property is then left out of the record and reads as
  \<open>undefined\<close> again).
\<close>

definition json_value :: "jsval \<Rightarrow> bool" where
  "json_value v = (json_of v = v)"

definition field_ok :: "jsval \<Rightarrow> bool" where
  "field_ok v = (v = Undefined \<or> json_value v)"

definition entry_ok :: "jsval \<times> producto \<Rightarrow> bool" where
  "entry_ok e =
     (fst e = getId (snd e) \<and> field_ok (getId (snd e)) \<and> field_ok (nombre (snd e)) \<and>
      field_ok (precio (snd e)) \<and> json_value (categoria (snd e)) \<and> field_ok (cantidad (snd e)))"

text \<open>A \<open>Map\<close> holds each key once.\<close>

fun keys_once :: "(jsval \<times> 'v) list \<Rightarrow> bool" where
  "keys_once [] = True"
| "keys_once (e # m) = (\<not> map_has m (fst e) \<and> keys_once m)"

definition cart_ok :: "world \<Rightarrow> bool" where
  "cart_ok w = (list_all entry_ok (items w) \<and> keys_once (items w))"

text \<open>A number that JSON cannot write: \<open>NaN\<close> or an infinity.\<close>

definition non_finite :: "jsval \<Rightarrow> bool" where
  "non_finite v = (v = Num NaN \<or> v = Num PInf \<or> v = Num NInf)"

text \<open>The cart holds each key once, every key is the id of its product, and the ids are
  values that survive the codec.\<close>

definition ids_ok :: "world \<Rightarrow> bool" where
  "ids_ok w =
     (list_all (\<lambda>e. fst e = getId (snd e) \<and> field_ok (getId (snd e))) (items w) \<and>
      keys_once (items w))"

section \<open>parsePrice\<close>

lemma takeWhile_replace_first:
  "takeWhile is_digit (replace_first s) = takeWhile is_digit s"
  by (induction s) (auto simp: is_digit_def)

lemma dropWhile_replace_first:
  "dropWhile is_digit (replace_first s) = replace_first (dropWhile is_digit s)"
  by (induction s) (auto simp: is_digit_def)

lemma takeWhile_comma_to_dot:
  "takeWhile is_digit (map comma_to_dot s) = takeWhile is_digit s"
  by (induction s) (auto simp: is_digit_def comma_to_dot_def)

lemma dropWhile_comma_to_dot:
  "dropWhile is_digit (map comma_to_dot s) = map comma_to_dot (dropWhile is_digit s)"
  by (induction s) (auto simp: is_digit_def comma_to_dot_def)

lemma literal_value_first_or_all:
  "literal_value ip (replace_first r) = literal_value ip (map comma_to_dot r)"
  by (cases r)
    (simp_all add: literal_value_def comma_to_dot_def takeWhile_replace_first
      takeWhile_comma_to_dot)

text \<open>Whether the first comma or every comma becomes a dot, \<open>parseFloat\<close> reads the same
  number: it stops at the second separator either way.\<close>

lemma parseFloat_first_or_all:
  "parseFloat (replace_first s) = parseFloat (map comma_to_dot s)"
  by (simp only: parseFloat_def takeWhile_replace_first dropWhile_replace_first
      takeWhile_comma_to_dot dropWhile_comma_to_dot literal_value_first_or_all)

lemma takeWhile_digit_comma:
  "takeWhile is_digit (x @ CHR '','' # y) = takeWhile is_digit x"
  by (induction x) (auto simp: is_digit_def)

lemma literal_value_comma:
  "literal_value ip (dropWhile is_digit (x @ CHR '','' # y)) =
   literal_value ip (dropWhile is_digit x)"
proof (cases "dropWhile is_digit x")
  case Nil
  then have "dropWhile is_digit (x @ CHR '','' # y) = CHR '','' # y"
    by (induction x) (auto simp: is_digit_def split: if_splits)
  with Nil show ?thesis
    by (simp add: literal_value_def del: dropWhile_eq_Nil_conv)
next
  case (Cons c r)
  then have "dropWhile is_digit (x @ CHR '','' # y) = c # r @ CHR '','' # y"
    by (induction x) (auto simp: is_digit_def split: if_splits)
  with Cons show ?thesis
    by (simp add: literal_value_def takeWhile_digit_comma)
qed

text \<open>A comma ends the number \<open>parseFloat\<close> reads.\<close>

lemma parseFloat_comma: "parseFloat (x @ CHR '','' # y) = parseFloat x"
  by (simp only: parseFloat_def takeWhile_digit_comma literal_value_comma)

lemma or_zero_case: "or_zero x = (case x of NaN \<Rightarrow> Fin 0 | _ \<Rightarrow> x)"
  by (cases x) (auto simp: or_zero_def)

lemma parseFloat_empty: "parseFloat [] = NaN"
  by (simp add: parseFloat_def literal_value_def)

lemma replace_first_at_comma:
  "CHR '','' \<notin> set a \<Longrightarrow> replace_first (a @ CHR '','' # b) = a @ CHR ''.'' # b"
  by (induction a) auto

text \<open>Some price labels.\<close>

lemma parsePrice_examples:
  "parsePrice (Some ''S/ 5.00'') = Fin 5"
  "parsePrice (Some ''S/ 12,50'') = Fin (25 / 2)"
  "parsePrice (Some ''Precio: consultar'') = Fin 0"
  "parsePrice (Some ''.'') = Fin 0"
  by (simp_all add: parsePrice_def kept_def is_digit_def or_zero_def parseFloat_def
      literal_value_def digits_val_def digit_val_def)

lemma kept_chars: "kept c \<longleftrightarrow> c \<in> set ''0123456789.,''"
  by (auto simp: kept_def is_digit_def)

lemma is_digit_chars: "is_digit c \<longleftrightarrow> c \<in> set ''0123456789''"
  by (simp add: is_digit_def)

lemma digit_val_digit_of: "is_digit c \<Longrightarrow> digit_val c = digit_of c"
  by (auto simp: is_digit_def digit_val_def digit_of_def)

lemma digits_val_snoc: "digits_val (ds @ [c]) = 10 * digits_val ds + digit_val c"
  by (simp add: digits_val_def)

lemma decimal_snoc: "decimal (ds @ [c]) = digit_of c + 10 * decimal ds"
  by (simp add: decimal_def)

lemma digits_val_decimal: "\<forall>c\<in>set ds. is_digit c \<Longrightarrow> digits_val ds = decimal ds"
proof (induction ds rule: rev_induct)
  case Nil
  then show ?case by (simp add: digits_val_def decimal_def)
next
  case (snoc c ds)
  then show ?case by (simp add: digits_val_snoc decimal_snoc digit_val_digit_of)
qed

lemma parseFloat_digits:
  assumes "\<forall>c\<in>set a. is_digit c"
  shows "parseFloat a = (if a = [] then NaN else Fin (of_nat (digits_val a)))"
proof -
  from assms have "takeWhile is_digit a = a" "dropWhile is_digit a = []" by simp_all
  then show ?thesis by (simp add: parseFloat_def literal_value_def del: dropWhile_eq_Nil_conv takeWhile_eq_all_conv)
qed

lemma parseFloat_fraction:
  assumes "\<forall>c\<in>set a. is_digit c" and "\<forall>c\<in>set b. is_digit c"
    and "r = [] \<or> \<not> is_digit (hd r)"
  shows "parseFloat (a @ CHR ''.'' # b @ r) =
         (if a = [] \<and> b = [] then NaN
          else Fin (of_nat (digits_val a) + of_nat (digits_val b) / 10 ^ length b))"
proof -
  have d: "\<not> is_digit CHR ''.''" by (simp add: is_digit_def)
  from assms(1) d have t: "takeWhile is_digit (a @ CHR ''.'' # b @ r) = a"
    by (simp add: takeWhile_append2)
  from assms(1) d have dr: "dropWhile is_digit (a @ CHR ''.'' # b @ r) = CHR ''.'' # b @ r"
    by (simp add: dropWhile_append2)
  from assms(3) have "takeWhile is_digit r = []" by (cases r) auto
  with assms(2) have f: "takeWhile is_digit (b @ r) = b"
    by (simp add: takeWhile_append2)
  show ?thesis
    by (simp only: parseFloat_def t dr) (simp add: literal_value_def f)
qed

lemma comma_to_dot_digits: "\<forall>c\<in>set a. is_digit c \<Longrightarrow> map comma_to_dot a = a"
  by (induction a) (auto simp: comma_to_dot_def is_digit_def)

lemma parsePrice_Some:
  "parsePrice (Some s) = or_zero (parseFloat (map comma_to_dot (filter kept s)))"
  by (simp add: parsePrice_def Let_def parseFloat_first_or_all parseFloat_empty or_zero_def)

lemma parsePrice_whole:
  assumes "filter kept s = a" and "\<forall>c\<in>set a. is_digit c"
  shows "parsePrice (Some s) = Fin (of_nat (decimal a))"
  using assms
  by (simp add: parsePrice_Some comma_to_dot_digits parseFloat_digits or_zero_def
      digits_val_decimal decimal_def)

lemma parsePrice_fraction:
  assumes "filter kept s = a @ sep # b @ r" and "sep = CHR ''.'' \<or> sep = CHR '',''"
    and "\<forall>c\<in>set a. is_digit c" and "\<forall>c\<in>set b. is_digit c"
    and "r = [] \<or> \<not> is_digit (hd r)"
  shows "parsePrice (Some s) = Fin (of_nat (decimal a) + of_nat (decimal b) / 10 ^ length b)"
proof -
  from assms(5) have r: "map comma_to_dot r = [] \<or> \<not> is_digit (hd (map comma_to_dot r))"
    by (cases r) (auto simp: comma_to_dot_def is_digit_def)
  from assms(2) have "comma_to_dot sep = CHR ''.''" by (auto simp: comma_to_dot_def)
  with assms have m: "map comma_to_dot (filter kept s) = a @ CHR ''.'' # b @ map comma_to_dot r"
    by (simp add: comma_to_dot_digits)
  have "parsePrice (Some s) =
      or_zero (if a = [] \<and> b = [] then NaN
               else Fin (of_nat (digits_val a) + of_nat (digits_val b) / 10 ^ length b))"
    by (simp only: parsePrice_Some m parseFloat_fraction [OF assms(3,4) r])
  then show ?thesis
    by (auto simp: or_zero_def decimal_def digits_val_decimal [OF assms(3)]
        digits_val_decimal [OF assms(4)])
qed

lemma parsePrice_result_eq: "parsePrice_result t = Inr (parsePrice t)"
  by (cases t) (auto simp: parsePrice_result_def parsePrice_def falsy_def toString_def Let_def)

lemma kept_fun: "(\<lambda>c. c \<in> set ''0123456789.,'') = kept"
  by (rule ext) (simp only: kept_chars)

lemma digits_subset: "set x \<subseteq> set ''0123456789'' \<longleftrightarrow> (\<forall>c\<in>set x. is_digit c)"
  unfolding is_digit_def by blast

lemma parsePrice_not_NaN: "parsePrice t \<noteq> NaN"
  by (cases t) (auto simp: parsePrice_def or_zero_def Let_def)

lemma parsePrice_eq_spec: "parsePrice t = parsePrice_spec t"
proof (cases t)
  case None
  then show ?thesis by (simp add: parsePrice_def parsePrice_spec_def)
next
  case (Some s)
  then show ?thesis
    by (simp add: parsePrice_Some parsePrice_spec_def or_zero_case split: number.splits)
qed

lemma parsePrice_strips:
  "parsePrice (Some s) = parsePrice (Some (filter (\<lambda>c. c \<in> set ''0123456789.,'') s))"
  unfolding kept_fun parsePrice_Some by simp

lemma parsePrice_whole_chars:
  assumes "filter (\<lambda>c. c \<in> set ''0123456789.,'') u = n \<and> set n \<subseteq> set ''0123456789''"
  shows "parsePrice (Some u) = Fin (of_nat (decimal n))"
proof (rule parsePrice_whole)
  from assms show "filter kept u = n" unfolding kept_fun by simp
  from assms show "\<forall>c\<in>set n. is_digit c" unfolding digits_subset by simp
qed

lemma parsePrice_fraction_chars:
  assumes h: "filter (\<lambda>c. c \<in> set ''0123456789.,'') v = a @ sep # b @ r \<and>
      (sep = CHR ''.'' \<or> sep = CHR '','') \<and>
      set a \<subseteq> set ''0123456789'' \<and> set b \<subseteq> set ''0123456789'' \<and>
      (r = [] \<or> hd r \<notin> set ''0123456789'')"
  shows "parsePrice (Some v) = Fin (of_nat (decimal a) + of_nat (decimal b) / 10 ^ length b)"
proof (rule parsePrice_fraction)
  from h show "filter kept v = a @ sep # b @ r" unfolding kept_fun by simp
  from h show "sep = CHR ''.'' \<or> sep = CHR '',''" by simp
  from h show "\<forall>c\<in>set a. is_digit c" unfolding digits_subset by simp
  from h show "\<forall>c\<in>set b. is_digit c" unfolding digits_subset by simp
  from h show "r = [] \<or> \<not> is_digit (hd r)" unfolding is_digit_chars by simp
qed

text \<open>
  Claim C7. \<open>parsePrice\<close> returns a number on every text and on \<open>null\<close>: its one raising
  step, \<open>toString\<close>, is never reached with \<open>null\<close>, and the result is never \<open>NaN\<close>. The
  result depends only on the digits, dots and commas of the text. When these are digits
  alone, it is the number they write; when they are digits, a dot or a comma, digits,
  and then no further digit, it is the decimal number with the comma read as the decimal
  point. It is \<open>0\<close> for \<open>null\<close>, for the empty text and for a text with nothing to parse,
  and it agrees with the specification's wording of the function.
\<close>

theorem parsePrice_returns_parsed_number:
  "parsePrice_result t = Inr (parsePrice t) \<and> parsePrice t \<noteq> NaN \<and>
   parsePrice t = parsePrice_spec t \<and>
   parsePrice None = Fin 0 \<and> parsePrice (Some []) = Fin 0 \<and>
   parsePrice (Some s) = parsePrice (Some (filter (\<lambda>c. c \<in> set ''0123456789.,'') s)) \<and>
   (filter (\<lambda>c. c \<in> set ''0123456789.,'') u = n \<and> set n \<subseteq> set ''0123456789''
      \<longrightarrow> parsePrice (Some u) = Fin (of_nat (decimal n))) \<and>
   (filter (\<lambda>c. c \<in> set ''0123456789.,'') v = a @ sep # b @ r \<and>
    (sep = CHR ''.'' \<or> sep = CHR '','') \<and>
    set a \<subseteq> set ''0123456789'' \<and> set b \<subseteq> set ''0123456789'' \<and>
    (r = [] \<or> hd r \<notin> set ''0123456789'')
      \<longrightarrow> parsePrice (Some v) = Fin (of_nat (decimal a) + of_nat (decimal b) / 10 ^ length b)) \<and>
   parsePrice (Some ''S/ 5.00'') = Fin 5 \<and> parsePrice (Some ''S/ 12,50'') = Fin (25 / 2) \<and>
   parsePrice (Some ''Precio: consultar'') = Fin 0"
proof (intro conjI impI)
  show "parsePrice_result t = Inr (parsePrice t)" by (rule parsePrice_result_eq)
  show "parsePrice t \<noteq> NaN" by (rule parsePrice_not_NaN)
  show "parsePrice t = parsePrice_spec t" by (rule parsePrice_eq_spec)
  show "parsePrice None = Fin 0" by (simp add: parsePrice_def)
  show "parsePrice (Some []) = Fin 0" by (simp add: parsePrice_def)
  show "parsePrice (Some s) = parsePrice (Some (filter (\<lambda>c. c \<in> set ''0123456789.,'') s))"
    by (rule parsePrice_strips)
  show "parsePrice (Some u) = Fin (of_nat (decimal n))"
    if "filter (\<lambda>c. c \<in> set ''0123456789.,'') u = n \<and> set n \<subseteq> set ''0123456789''"
    using that by (rule parsePrice_whole_chars)
  show "parsePrice (Some v) = Fin (of_nat (decimal a) + of_nat (decimal b) / 10 ^ length b)"
    if "filter (\<lambda>c. c \<in> set ''0123456789.,'') v = a @ sep # b @ r \<and>
      (sep = CHR ''.'' \<or> sep = CHR '','') \<and>
      set a \<subseteq> set ''0123456789'' \<and> set b \<subseteq> set ''0123456789'' \<and>
      (r = [] \<or> hd r \<notin> set ''0123456789'')"
    using that by (rule parsePrice_fraction_chars)
  show "parsePrice (Some ''S/ 5.00'') = Fin 5" by (rule parsePrice_examples(1))
  show "parsePrice (Some ''S/ 12,50'') = Fin (25 / 2)" by (rule parsePrice_examples(2))
  show "parsePrice (Some ''Precio: consultar'') = Fin 0" by (rule parsePrice_examples(3))
qed

theorem parsePrice_returns_parsed_number_witness:
  "parsePrice (Some ''5 soles'') = Fin 5 \<and> parsePrice (Some ''S/ 12,50 c/u'') = Fin (25 / 2) \<and>
   parsePrice_result (Some ''S/ 12,50 c/u'') = Inr (Fin (25 / 2))"
proof -
  have h1: "filter (\<lambda>c. c \<in> set ''0123456789.,'') ''5 soles'' = ''5'' \<and>
      set ''5'' \<subseteq> set ''0123456789''"
    by simp
  have h2: "filter (\<lambda>c. c \<in> set ''0123456789.,'') ''S/ 12,50 c/u'' = ''12'' @ CHR '','' # ''50'' @ [] \<and>
      (CHR '','' = CHR ''.'' \<or> CHR '','' = CHR '','') \<and>
      set ''12'' \<subseteq> set ''0123456789'' \<and> set ''50'' \<subseteq> set ''0123456789'' \<and>
      ([] = [] \<or> hd [] \<notin> set ''0123456789'')"
    by simp
  note T = parsePrice_returns_parsed_number [of "Some ''S/ 12,50 c/u''" "[]" "''5 soles''" "''5''"
      "''S/ 12,50 c/u''" "''12''" "CHR '',''" "''50''" "[]"]
  from T h1 have a: "parsePrice (Some ''5 soles'') = Fin (of_nat (decimal ''5''))"
    by blast
  from T h2 have b: "parsePrice (Some ''S/ 12,50 c/u'') =
      Fin (of_nat (decimal ''12'') + of_nat (decimal ''50'') / 10 ^ length ''50'')"
    by blast
  from T have c: "parsePrice_result (Some ''S/ 12,50 c/u'') = Inr (parsePrice (Some ''S/ 12,50 c/u''))"
    by blast
  have d: "decimal ''5'' = 5" "decimal ''12'' = 12" "decimal ''50'' = 50"
    by (simp_all add: decimal_def digit_of_def)
  from a b c show ?thesis by (simp add: d)
qed

text \<open>
  Claim C9. Only the first comma of the cleaned text becomes a decimal point. When the
  cleaned text has a later comma, that comma is left in place and ends the number that
  is read: the price is the one of the text before it. So \<open>parsePrice("1,2,3")\<close> is
  \<open>1.2\<close>.
\<close>

theorem parsePrice_first_comma_only:
  assumes "filter kept s = a @ CHR '','' # b @ CHR '','' # r"
    and "CHR '','' \<notin> set a"
  shows "replace_first (filter kept s) = a @ CHR ''.'' # b @ CHR '','' # r \<and>
         parsePrice (Some s) = or_zero (parseFloat (a @ CHR ''.'' # b))"
proof -
  have r: "replace_first (filter kept s) = (a @ CHR ''.'' # b) @ CHR '','' # r"
    using assms by (simp add: replace_first_at_comma)
  have "s \<noteq> []" using assms(1) by auto
  then have "parsePrice (Some s) = or_zero (parseFloat ((a @ CHR ''.'' # b) @ CHR '','' # r))"
    by (simp only: parsePrice_def option.case if_False Let_def r)
  then show ?thesis using r by (simp only: parseFloat_comma) simp
qed

theorem parsePrice_first_comma_only_witness:
  "parsePrice (Some ''1,2,3'') = Fin (6 / 5) \<and>
   replace_first (filter kept ''1,2,3'') = ''1.2,3''"
  using parsePrice_first_comma_only [of "''1,2,3''" "''1''" "''2''" "''3''"]
  by (simp add: kept_def is_digit_def or_zero_def parseFloat_def literal_value_def
      digits_val_def digit_val_def)

section \<open>The Map and the storage\<close>

lemma items_saveToStorage: "items (saveToStorage w) = items w"
  by (simp add: saveToStorage_def Let_def)

lemma map_has_get: "map_has m k \<longleftrightarrow> map_get m k \<noteq> None"
  by (induction m) (auto simp: map_has_def map_get_def)

lemma map_has_self: "map_has m k \<Longrightarrow> same_value_zero k k"
  by (induction m) (auto simp: map_has_def same_value_zero_def)

lemma map_has_set: "map_has (map_set m k v) j \<longleftrightarrow> map_has m j \<or> same_value_zero k j"
  by (induction m) (auto simp: map_has_def same_value_zero_def)

lemma map_get_set_same: "\<not> is_object k \<Longrightarrow> map_get (map_set m k v) k = Some v"
  by (induction m) (auto simp: map_get_def same_value_zero_def)

lemma map_get_set_has: "map_has m k \<Longrightarrow> map_get (map_set m k v) k = Some v"
  by (induction m) (auto simp: map_get_def map_has_def same_value_zero_def)

lemma map_has_delete:
  "map_has (map_delete m k) j \<longleftrightarrow> map_has m j \<and> \<not> same_value_zero j k"
  by (induction m) (auto simp: map_has_def map_delete_def same_value_zero_def)

lemma map_delete_set: "map_has m k \<Longrightarrow> map_delete (map_set m k v) k = map_delete m k"
  by (induction m) (auto simp: map_has_def map_delete_def same_value_zero_def)

lemma js_le0_Num: "js_le0 (Num n) = Some (num_le0 n)"
  by (simp add: js_le0_def)

lemma num_gt0_not_le0: "num_gt0 n \<Longrightarrow> \<not> num_le0 n"
  by (cases n) auto

lemma num_add_zero: "num_add (Fin 0) q = q"
  by (cases q) auto

lemma floor_half: "\<lfloor>1 / 2 :: rat\<rfloor> = 0"
  by (simp add: floor_eq_iff)

section \<open>Hydration of the scenario's text\<close>

text \<open>
  Claim C1, as stated. The text of the scenario names its properties \<open>name\<close>, \<open>price\<close>,
  \<open>category\<close> and \<open>quantity\<close>; \<open>loadFromStorage\<close> reads \<open>nombre\<close>, \<open>precio\<close>, \<open>categoria\<close>
  and \<open>cantidad\<close>. The entry it builds has an undefined price and quantity, and the
  total is \<open>NaN\<close>, not 600.
\<close>

theorem hydrate_scenario_text_total_NaN:
  "getTotal (Carrito \<lparr>items = [],
      stored = Some (JsonText (Arr [Obj [(''id'', Str ''p2''), (''name'', Str ''Torta''),
        (''price'', Num (Fin 300)), (''category'', Str ''general''),
        (''quantity'', Num (Fin 2))]])),
      storage = Working, console = []\<rparr>) = Some NaN \<and>
   getTotal (Carrito \<lparr>items = [],
      stored = Some (JsonText (Arr [Obj [(''id'', Str ''p2''), (''name'', Str ''Torta''),
        (''price'', Num (Fin 300)), (''category'', Str ''general''),
        (''quantity'', Num (Fin 2))]])),
      storage = Working, console = []\<rparr>) \<noteq> Some (Fin 600)"
  by (simp add: Carrito_def loadFromStorage_def from_record_def Producto_def getTotal_def
      getItemsArray_def js_times_def)

text \<open>
  Claim C1, amended. With the property names the codec writes and reads, the stored
  record of two units at 300 hydrates to a cart whose total is 600, whatever the cart
  held before the page load.
\<close>

theorem hydrate_codec_text_total_600:
  "getTotal (Carrito (w\<lparr>stored := Some (JsonText (Arr [Obj [(''id'', Str ''p2''),
        (''nombre'', Str ''Torta''), (''precio'', Num (Fin 300)),
        (''categoria'', Str ''general''), (''cantidad'', Num (Fin 2))]])),
      storage := Working\<rparr>)) = Some (Fin 600)"
  by (simp add: Carrito_def loadFromStorage_def from_record_def Producto_def getTotal_def
      getItemsArray_def js_times_def)

section \<open>add\<close>

lemma add_all_existing:
  "map_get (items w) x = Some p0 \<Longrightarrow> cantidad p0 = Num (Fin k) \<Longrightarrow>
   \<forall>p\<in>set ps. getId p = x \<Longrightarrow>
   \<exists>w'. add_all ps w = Some w' \<and>
        map_get (items w') x = Some (p0\<lparr>cantidad := Num (Fin (k + of_nat (length ps)))\<rparr>)"
proof (induction ps arbitrary: w p0 k)
  case Nil
  then show ?case by simp
next
  case (Cons p ps)
  from Cons.prems have h: "map_has (items w) x" by (simp add: map_has_get)
  let ?p1 = "p0\<lparr>cantidad := Num (Fin (k + 1))\<rparr>"
  let ?w1 = "saveToStorage (w\<lparr>items := map_set (items w) x ?p1\<rparr>)"
  from Cons.prems h have a: "add p w = Some ?w1"
    by (simp add: add_def js_plus_def)
  from h have g: "map_get (items ?w1) x = Some ?p1"
    by (simp add: items_saveToStorage map_get_set_has)
  from Cons.prems have "\<forall>q\<in>set ps. getId q = x" by simp
  from Cons.IH [OF g _ this, of "k + 1"] obtain w' where
    "add_all ps ?w1 = Some w'"
    "map_get (items w') x = Some (?p1\<lparr>cantidad := Num (Fin (k + 1 + of_nat (length ps)))\<rparr>)"
    by auto
  with a show ?case by (simp add: add.assoc add.commute)
qed

text \<open>
  Claim C3. From a cart without the id \<open>x\<close>, \<open>n \<ge> 1\<close> calls of \<open>add\<close> with fresh products
  (quantity 1) of id \<open>x\<close> leave one entry for \<open>x\<close>: the first product, with quantity \<open>n\<close>.
  Name, price and category of the later products are dropped. Ids are primitive values
  (strings in the program).
\<close>

theorem add_same_id_merges:
  assumes "\<not> map_has (items w) x" and "\<not> is_object x" and "ps \<noteq> []"
    and "\<forall>p\<in>set ps. getId p = x \<and> cantidad p = Num (Fin 1)"
  shows "\<exists>w'. add_all ps w = Some w' \<and>
           map_get (items w') x = Some ((hd ps)\<lparr>cantidad := Num (Fin (of_nat (length ps)))\<rparr>)"
proof -
  from assms(3) obtain p qs where ps: "ps = p # qs" by (cases ps) auto
  let ?w1 = "saveToStorage (w\<lparr>items := map_set (items w) x p\<rparr>)"
  from assms ps have a: "add p w = Some ?w1" by (simp add: add_def)
  from assms(2) have g: "map_get (items ?w1) x = Some p"
    by (simp add: items_saveToStorage map_get_set_same)
  from assms(4) ps have c: "cantidad p = Num (Fin 1)" and r: "\<forall>q\<in>set qs. getId q = x"
    by simp_all
  from add_all_existing [OF g c r] obtain w' where
    "add_all qs ?w1 = Some w'"
    "map_get (items w') x = Some (p\<lparr>cantidad := Num (Fin (1 + of_nat (length qs)))\<rparr>)"
    by blast
  with a ps show ?thesis by simp
qed

theorem add_same_id_merges_witness:
  "\<not> map_has (items \<lparr>items = [], stored = None, storage = Working, console = []\<rparr>) (Str ''p1'') \<and>
   \<not> is_object (Str ''p1'') \<and>
   map_option (\<lambda>w'. map_get (items w') (Str ''p1''))
     (add_all [Producto (Str ''p1'') (Str ''Cupcake'') (Num (Fin 5)) Undefined,
               Producto (Str ''p1'') (Str ''Torta'') (Num (Fin 300)) (Str ''tortas''),
               Producto (Str ''p1'') (Str ''Pie'') (Num (Fin 7)) Undefined]
        \<lparr>items = [], stored = None, storage = Working, console = []\<rparr>) =
   Some (Some \<lparr>getId = Str ''p1'', nombre = Str ''Cupcake'', precio = Num (Fin 5),
               categoria = Str ''general'', cantidad = Num (Fin 3)\<rparr>)"
  using add_same_id_merges [of "\<lparr>items = [], stored = None, storage = Working, console = []\<rparr>"
      "Str ''p1''"
      "[Producto (Str ''p1'') (Str ''Cupcake'') (Num (Fin 5)) Undefined,
        Producto (Str ''p1'') (Str ''Torta'') (Num (Fin 300)) (Str ''tortas''),
        Producto (Str ''p1'') (Str ''Pie'') (Num (Fin 7)) Undefined]"]
  by (auto simp: map_has_def Producto_def)

section \<open>updateQty\<close>

text \<open>
  Claim C4. \<open>updateQty\<close> on an absent id returns at once and changes nothing, whatever
  the quantity. On a present id, a number \<open>n <= 0\<close> removes the entry, so that \<open>getCount\<close>
  afterwards runs over the other entries only; a number \<open>n > 0\<close> becomes the quantity of
  the entry.
\<close>

theorem updateQty_cases:
  "(\<not> map_has (items w) i \<longrightarrow> updateQty i qty w = Some w) \<and>
   (map_has (items w) i \<and> num_le0 n \<longrightarrow>
      (\<exists>w'. updateQty i (Num n) w = Some w' \<and> items w' = map_delete (items w) i \<and>
            \<not> map_has (items w') i \<and>
            getCount w' = count_loop (map snd (map_delete (items w) i)) (Fin 0))) \<and>
   (map_has (items w) i \<and> num_gt0 n \<longrightarrow>
      (\<exists>w' p. updateQty i (Num n) w = Some w' \<and> map_get (items w) i = Some p \<and>
            items w' = map_set (items w) i (p\<lparr>cantidad := Num n\<rparr>) \<and>
            map_get (items w') i = Some (p\<lparr>cantidad := Num n\<rparr>)))"
proof (intro conjI impI)
  assume "\<not> map_has (items w) i"
  then show "updateQty i qty w = Some w" by (simp add: updateQty_def)
next
  assume "map_has (items w) i \<and> num_le0 n"
  then have h: "map_has (items w) i" and l: "num_le0 n" by simp_all
  from h obtain p where p: "map_get (items w) i = Some p"
    by (auto simp: map_has_get)
  from h have "same_value_zero i i" by (rule map_has_self)
  with h l p show "\<exists>w'. updateQty i (Num n) w = Some w' \<and> items w' = map_delete (items w) i \<and>
            \<not> map_has (items w') i \<and>
            getCount w' = count_loop (map snd (map_delete (items w) i)) (Fin 0)"
    by (simp add: updateQty_def js_le0_Num items_saveToStorage map_delete_set map_has_delete
        getCount_def getItemsArray_def)
next
  assume "map_has (items w) i \<and> num_gt0 n"
  then have h: "map_has (items w) i" and l: "num_gt0 n" by simp_all
  from h obtain p where p: "map_get (items w) i = Some p"
    by (auto simp: map_has_get)
  with h l show "\<exists>w' p. updateQty i (Num n) w = Some w' \<and> map_get (items w) i = Some p \<and>
            items w' = map_set (items w) i (p\<lparr>cantidad := Num n\<rparr>) \<and>
            map_get (items w') i = Some (p\<lparr>cantidad := Num n\<rparr>)"
    by (simp add: updateQty_def js_le0_Num items_saveToStorage num_gt0_not_le0 map_get_set_has)
qed

theorem updateQty_cases_witness:
  "\<not> map_has [(Str ''p1'', Producto (Str ''p1'') (Str ''Cupcake'') (Num (Fin 5)) Undefined)]
      (Str ''zz'') \<and>
   updateQty (Str ''zz'') (Num (Fin 3))
     \<lparr>items = [(Str ''p1'', Producto (Str ''p1'') (Str ''Cupcake'') (Num (Fin 5)) Undefined)],
      stored = None, storage = Working, console = []\<rparr> =
   Some \<lparr>items = [(Str ''p1'', Producto (Str ''p1'') (Str ''Cupcake'') (Num (Fin 5)) Undefined)],
      stored = None, storage = Working, console = []\<rparr> \<and>
   map_has [(Str ''p1'', Producto (Str ''p1'') (Str ''Cupcake'') (Num (Fin 5)) Undefined)]
      (Str ''p1'') \<and>
   num_le0 (Fin (- 1)) \<and> num_gt0 (Fin 5) \<and>
   map_option items (updateQty (Str ''p1'') (Num (Fin (- 1)))
     \<lparr>items = [(Str ''p1'', Producto (Str ''p1'') (Str ''Cupcake'') (Num (Fin 5)) Undefined)],
      stored = None, storage = Working, console = []\<rparr>) = Some [] \<and>
   map_option getCount (updateQty (Str ''p1'') (Num (Fin (- 1)))
     \<lparr>items = [(Str ''p1'', Producto (Str ''p1'') (Str ''Cupcake'') (Num (Fin 5)) Undefined)],
      stored = None, storage = Working, console = []\<rparr>) = Some (Some (Fin 0)) \<and>
   map_option (\<lambda>w'. map (\<lambda>e. cantidad (snd e)) (items w')) (updateQty (Str ''p1'') (Num (Fin 5))
     \<lparr>items = [(Str ''p1'', Producto (Str ''p1'') (Str ''Cupcake'') (Num (Fin 5)) Undefined)],
      stored = None, storage = Working, console = []\<rparr>) = Some [Num (Fin 5)]"
  using
    updateQty_cases [of
      "\<lparr>items = [(Str ''p1'', Producto (Str ''p1'') (Str ''Cupcake'') (Num (Fin 5)) Undefined)],
        stored = None, storage = Working, console = []\<rparr>" "Str ''zz''" "Num (Fin 3)" "Fin 5"]
    updateQty_cases [of
      "\<lparr>items = [(Str ''p1'', Producto (Str ''p1'') (Str ''Cupcake'') (Num (Fin 5)) Undefined)],
        stored = None, storage = Working, console = []\<rparr>" "Str ''p1''" "Num (Fin 3)" "Fin (- 1)"]
    updateQty_cases [of
      "\<lparr>items = [(Str ''p1'', Producto (Str ''p1'') (Str ''Cupcake'') (Num (Fin 5)) Undefined)],
        stored = None, storage = Working, console = []\<rparr>" "Str ''p1''" "Num (Fin 3)" "Fin 5"]
  by (auto simp: map_has_def map_delete_def same_value_zero_def Producto_def getCount_def
      getItemsArray_def)

text \<open>
  Claim C10. On a present id, \<open>updateQty\<close> with a number \<open>q > 0\<close> stores \<open>q\<close> itself as the
  quantity: nothing rounds it or asks for a whole number. When the entry is the only
  one, \<open>getCount\<close> then returns \<open>q\<close>, a fraction if \<open>q\<close> is one.
\<close>

theorem updateQty_stores_exactly:
  "map_has (items w) i \<and> num_gt0 q \<longrightarrow>
     (\<exists>w' p. updateQty i (Num q) w = Some w' \<and> map_get (items w') i = Some p \<and>
        cantidad p = Num q \<and>
        (length (items w) = 1 \<longrightarrow> getCount w' = Some q))"
proof
  assume "map_has (items w) i \<and> num_gt0 q"
  then have h: "map_has (items w) i" and l: "num_gt0 q" by simp_all
  from h obtain p where p: "map_get (items w) i = Some p"
    by (auto simp: map_has_get)
  let ?m = "map_set (items w) i (p\<lparr>cantidad := Num q\<rparr>)"
  let ?w' = "saveToStorage (w\<lparr>items := ?m\<rparr>)"
  from h l p have u: "updateQty i (Num q) w = Some ?w'"
    by (simp add: updateQty_def js_le0_Num num_gt0_not_le0)
  from h have g: "map_get (items ?w') i = Some (p\<lparr>cantidad := Num q\<rparr>)"
    by (simp add: items_saveToStorage map_get_set_has)
  have c: "getCount ?w' = Some q" if "length (items w) = 1"
  proof -
    from that obtain k p0 where m: "items w = [(k, p0)]"
      by (cases "items w") auto
    with h have "same_value_zero k i" by (simp add: map_has_def)
    with m show ?thesis
      by (simp add: getCount_def getItemsArray_def items_saveToStorage js_plus_def num_add_zero)
  qed
  from u g c show "\<exists>w' p. updateQty i (Num q) w = Some w' \<and> map_get (items w') i = Some p \<and>
        cantidad p = Num q \<and> (length (items w) = 1 \<longrightarrow> getCount w' = Some q)"
    by auto
qed

theorem updateQty_stores_exactly_witness:
  "map_has [(Str ''p1'', Producto (Str ''p1'') (Str ''Cupcake'') (Num (Fin 5)) Undefined)]
      (Str ''p1'') \<and>
   num_gt0 (Fin (1 / 2)) \<and>
   map_option getCount (updateQty (Str ''p1'') (Num (Fin (1 / 2)))
     \<lparr>items = [(Str ''p1'', Producto (Str ''p1'') (Str ''Cupcake'') (Num (Fin 5)) Undefined)],
      stored = None, storage = Working, console = []\<rparr>) = Some (Some (Fin (1 / 2))) \<and>
   \<not> whole (Num (Fin (1 / 2)))"
  using updateQty_stores_exactly [of
      "\<lparr>items = [(Str ''p1'', Producto (Str ''p1'') (Str ''Cupcake'') (Num (Fin 5)) Undefined)],
        stored = None, storage = Working, console = []\<rparr>" "Str ''p1''" "Fin (1 / 2)"]
  by (auto simp: map_has_def same_value_zero_def Producto_def whole_def floor_half)

section \<open>A failing storage\<close>

text \<open>
  Claim C8. When the storage does not work (quota exceeded, or disabled), every
  mutation still completes: \<open>remove\<close> and \<open>clear\<close> always, \<open>add\<close> and \<open>updateQty\<close> whenever
  they complete with a working storage. The \<open>Map\<close> afterwards is the one the mutation
  produces with a working storage, the stored text is untouched, and the failure of the
  write is logged once.
\<close>

theorem storage_failure_not_fatal:
  assumes "storage w \<noteq> Working"
  shows "(\<forall>u. add p (w\<lparr>storage := Working\<rparr>) = Some u \<longrightarrow>
            (\<exists>w'. add p w = Some w' \<and> items w' = items u \<and> stored w' = stored w \<and>
                  console w' = console w @ [''guardar carrito''])) \<and>
         (items (remove_id i w) = map_delete (items w) i \<and> stored (remove_id i w) = stored w \<and>
            console (remove_id i w) = console w @ [''guardar carrito'']) \<and>
         (\<forall>u. map_has (items w) i \<and> updateQty i qty (w\<lparr>storage := Working\<rparr>) = Some u \<longrightarrow>
            (\<exists>w'. updateQty i qty w = Some w' \<and> items w' = items u \<and> stored w' = stored w \<and>
                  console w' = console w @ [''guardar carrito''])) \<and>
         (items (clear w) = [] \<and> stored (clear w) = stored w \<and>
            console (clear w) = console w @ [''guardar carrito''])"
proof (intro conjI allI impI)
  fix u assume "add p (w\<lparr>storage := Working\<rparr>) = Some u"
  with assms show "\<exists>w'. add p w = Some w' \<and> items w' = items u \<and> stored w' = stored w \<and>
                  console w' = console w @ [''guardar carrito'']"
    by (auto simp: add_def saveToStorage_def Let_def split: option.splits if_splits)
next
  fix u assume "map_has (items w) i \<and> updateQty i qty (w\<lparr>storage := Working\<rparr>) = Some u"
  with assms show "\<exists>w'. updateQty i qty w = Some w' \<and> items w' = items u \<and> stored w' = stored w \<and>
                  console w' = console w @ [''guardar carrito'']"
    by (auto simp: updateQty_def saveToStorage_def Let_def split: option.splits if_splits)
qed (use assms in \<open>simp_all add: remove_id_def clear_def saveToStorage_def\<close>)

theorem storage_failure_not_fatal_witness:
  "storage \<lparr>items = [(Str ''p1'', Producto (Str ''p1'') (Str ''Cupcake'') (Num (Fin 5)) Undefined)],
      stored = None, storage = QuotaExceeded, console = []\<rparr> \<noteq> Working \<and>
   add (Producto (Str ''p1'') (Str ''Cupcake'') (Num (Fin 5)) Undefined)
     \<lparr>items = [(Str ''p1'', Producto (Str ''p1'') (Str ''Cupcake'') (Num (Fin 5)) Undefined)],
      stored = None, storage = QuotaExceeded, console = []\<rparr> =
   Some \<lparr>items = [(Str ''p1'', \<lparr>getId = Str ''p1'', nombre = Str ''Cupcake'',
            precio = Num (Fin 5), categoria = Str ''general'', cantidad = Num (Fin 2)\<rparr>)],
      stored = None, storage = QuotaExceeded, console = [''guardar carrito'']\<rparr> \<and>
   updateQty (Str ''p1'') (Num (Fin 4))
     \<lparr>items = [(Str ''p1'', Producto (Str ''p1'') (Str ''Cupcake'') (Num (Fin 5)) Undefined)],
      stored = None, storage = QuotaExceeded, console = []\<rparr> =
   Some \<lparr>items = [(Str ''p1'', \<lparr>getId = Str ''p1'', nombre = Str ''Cupcake'',
            precio = Num (Fin 5), categoria = Str ''general'', cantidad = Num (Fin 4)\<rparr>)],
      stored = None, storage = QuotaExceeded, console = [''guardar carrito'']\<rparr>"
proof -
  have h: "storage \<lparr>items =
        [(Str ''p1'', Producto (Str ''p1'') (Str ''Cupcake'') (Num (Fin 5)) Undefined)],
      stored = None, storage = QuotaExceeded, console = []\<rparr> \<noteq> Working"
    by simp
  show ?thesis
    using h storage_failure_not_fatal [OF h,
        of "Producto (Str ''p1'') (Str ''Cupcake'') (Num (Fin 5)) Undefined" "Str ''p1''"
          "Num (Fin 4)"]
    by (simp add: add_def updateQty_def saveToStorage_def map_has_def map_get_def
        same_value_zero_def Producto_def js_plus_def js_le0_def Let_def)
qed

section \<open>Hydration\<close>

lemma map_set_append: "\<not> map_has m k \<Longrightarrow> map_set m k v = m @ [(k, v)]"
  by (induction m) (auto simp: map_has_def)

lemma load_loop_items:
  "items (load_loop obs w) =
   foldl (\<lambda>m ob. map_set m (getId (from_record ob)) (from_record ob)) (items w)
     (takeWhile (\<lambda>ob. \<not> nullish ob) obs)"
  by (induction obs arbitrary: w) (auto simp: load_error_def Let_def)

lemma load_loop_stored: "stored (load_loop obs w) = stored w \<and> storage (load_loop obs w) = storage w"
  by (induction obs arbitrary: w) (auto simp: load_error_def Let_def)

lemma load_loop_console:
  "console (load_loop obs w) =
   (if list_ex nullish obs then console w @ [''cargar carrito''] else console w)"
  by (induction obs arbitrary: w) (auto simp: load_error_def Let_def)

lemma loadFromStorage_stored:
  "stored (loadFromStorage w) = stored w \<and> storage (loadFromStorage w) = storage w"
  by (auto simp: loadFromStorage_def load_error_def load_loop_stored split: option.splits)

lemma loadFromStorage_console:
  "console (loadFromStorage w) = console w \<or>
   console (loadFromStorage w) = console w @ [''cargar carrito'']"
  by (auto simp: loadFromStorage_def load_error_def load_loop_console split: option.splits)

text \<open>
  Claim C6, as stated. The text \<open>[1]\<close> is well-formed JSON but not an array of cart-entry
  records. Hydration does not yield an empty cart: the number \<open>1\<close> has none of the five
  properties, and the loop stores an entry whose id, name, price and quantity are
  \<open>undefined\<close>.
\<close>

theorem hydration_keeps_unvalidated_entries:
  "items (Carrito \<lparr>items = [], stored = Some (JsonText (Arr [Num (Fin 1)])),
      storage = Working, console = []\<rparr>) =
     [(Undefined, \<lparr>getId = Undefined, nombre = Undefined, precio = Undefined,
         categoria = Str ''general'', cantidad = Undefined\<rparr>)] \<and>
   items (Carrito \<lparr>items = [], stored = Some (JsonText (Arr [Num (Fin 1)])),
      storage = Working, console = []\<rparr>) \<noteq> []"
  by (simp add: Carrito_def loadFromStorage_def from_record_def Producto_def)

text \<open>
  Claim C6, amended. Loading never raises: \<open>Carrito\<close> is a total function, it leaves the
  stored text alone and writes at most one line to the console. The cart is empty when
  the storage is disabled, the key is absent, the text is empty or is not JSON, or the
  parsed value is not iterable. When the parsed value is an array (or a string), no
  element is checked against the shape of a cart entry: every element before the first
  \<open>null\<close> becomes an entry, read property by property.
\<close>

theorem hydration_contained:
  "(storage w = Disabled \<or> stored w = None \<or> stored w = Some EmptyText \<or>
    stored w = Some BadText \<or> (\<exists>v. stored w = Some (JsonText v) \<and> iterate v = None)
      \<longrightarrow> items (Carrito w) = []) \<and>
   (storage w \<noteq> Disabled \<and> stored w = Some (JsonText v) \<and> iterate v = Some obs
      \<longrightarrow> items (Carrito w) =
          foldl (\<lambda>m ob. map_set m (getId (from_record ob)) (from_record ob)) []
            (takeWhile (\<lambda>ob. \<not> nullish ob) obs)) \<and>
   stored (Carrito w) = stored w \<and> storage (Carrito w) = storage w \<and>
   (console (Carrito w) = console w \<or> console (Carrito w) = console w @ [''cargar carrito''])"
proof (intro conjI impI)
  assume "storage w = Disabled \<or> stored w = None \<or> stored w = Some EmptyText \<or>
    stored w = Some BadText \<or> (\<exists>v. stored w = Some (JsonText v) \<and> iterate v = None)"
  then show "items (Carrito w) = []"
    by (auto simp: Carrito_def loadFromStorage_def load_error_def)
next
  assume "storage w \<noteq> Disabled \<and> stored w = Some (JsonText v) \<and> iterate v = Some obs"
  then show "items (Carrito w) =
          foldl (\<lambda>m ob. map_set m (getId (from_record ob)) (from_record ob)) []
            (takeWhile (\<lambda>ob. \<not> nullish ob) obs)"
    by (simp add: Carrito_def loadFromStorage_def load_loop_items)
next
  show "stored (Carrito w) = stored w" "storage (Carrito w) = storage w"
    using loadFromStorage_stored [of "w\<lparr>items := []\<rparr>"] by (simp_all add: Carrito_def)
  show "console (Carrito w) = console w \<or> console (Carrito w) = console w @ [''cargar carrito'']"
    using loadFromStorage_console [of "w\<lparr>items := []\<rparr>"] by (simp add: Carrito_def)
qed

theorem hydration_contained_witness:
  "items (Carrito \<lparr>items = [], stored = Some BadText, storage = Working, console = []\<rparr>) = [] \<and>
   console (Carrito \<lparr>items = [], stored = Some BadText, storage = Working, console = []\<rparr>) =
     [''cargar carrito''] \<and>
   iterate (Arr [Obj [(''id'', Str ''p1''), (''cantidad'', Num (Fin 2))], Null,
      Obj [(''id'', Str ''p2'')]]) =
     Some [Obj [(''id'', Str ''p1''), (''cantidad'', Num (Fin 2))], Null, Obj [(''id'', Str ''p2'')]] \<and>
   items (Carrito \<lparr>items = [],
      stored = Some (JsonText (Arr [Obj [(''id'', Str ''p1''), (''cantidad'', Num (Fin 2))], Null,
        Obj [(''id'', Str ''p2'')]])),
      storage = Working, console = []\<rparr>) =
     [(Str ''p1'', \<lparr>getId = Str ''p1'', nombre = Undefined, precio = Undefined,
         categoria = Str ''general'', cantidad = Num (Fin 2)\<rparr>)]"
  using
    hydration_contained [of
      "\<lparr>items = [], stored = Some BadText, storage = Working, console = []\<rparr>"]
    hydration_contained [of
      "\<lparr>items = [],
        stored = Some (JsonText (Arr [Obj [(''id'', Str ''p1''), (''cantidad'', Num (Fin 2))],
          Null, Obj [(''id'', Str ''p2'')]])),
        storage = Working, console = []\<rparr>"
      "Arr [Obj [(''id'', Str ''p1''), (''cantidad'', Num (Fin 2))], Null,
        Obj [(''id'', Str ''p2'')]]"
      "[Obj [(''id'', Str ''p1''), (''cantidad'', Num (Fin 2))], Null, Obj [(''id'', Str ''p2'')]]"]
  by (simp add: Carrito_def loadFromStorage_def load_error_def from_record_def Producto_def)

section \<open>The persistence codec\<close>

lemma map_of_json_members:
  "distinct (map fst kvs) \<Longrightarrow>
   map_of (map (\<lambda>e. (fst e, json_of (snd e))) (filter (\<lambda>e. snd e \<noteq> Undefined) kvs)) k =
   (case map_of kvs k of
      None \<Rightarrow> None
    | Some v \<Rightarrow> if v = Undefined then None else Some (json_of v))"
proof (induction kvs)
  case Nil
  then show ?case by simp
next
  case (Cons e kvs)
  then have "k = fst e \<Longrightarrow> map_of kvs k = None"
    by (auto simp: map_of_eq_None_iff)
  with Cons show ?case by (cases e) (auto split: option.splits)
qed

lemma get_prop_json_of_Obj:
  "distinct (map fst kvs) \<Longrightarrow>
   get_prop (json_of (Obj kvs)) k =
   (case map_of kvs k of
      None \<Rightarrow> Undefined
    | Some v \<Rightarrow> if v = Undefined then Undefined else json_of v)"
  by (simp add: map_of_json_members split: option.splits)

lemma entry_record_props:
  "get_prop (json_of (entry_record p)) ''id'' =
     (if getId p = Undefined then Undefined else json_of (getId p))"
  "get_prop (json_of (entry_record p)) ''nombre'' =
     (if nombre p = Undefined then Undefined else json_of (nombre p))"
  "get_prop (json_of (entry_record p)) ''precio'' =
     (if precio p = Undefined then Undefined else json_of (precio p))"
  "get_prop (json_of (entry_record p)) ''categoria'' =
     (if categoria p = Undefined then Undefined else json_of (categoria p))"
  "get_prop (json_of (entry_record p)) ''cantidad'' =
     (if cantidad p = Undefined then Undefined else json_of (cantidad p))"
  unfolding entry_record_def by (simp_all add: get_prop_json_of_Obj del: json_of.simps)

lemma json_value_not_undefined: "json_value v \<Longrightarrow> v \<noteq> Undefined"
  by (auto simp: json_value_def)

lemma field_ok_survives: "field_ok v \<Longrightarrow> (if v = Undefined then Undefined else json_of v) = v"
  by (auto simp: field_ok_def json_value_def)

lemma from_record_entry_record:
  assumes "entry_ok e"
  shows "from_record (json_of (entry_record (snd e))) = snd e"
proof -
  from assms have c: "categoria (snd e) \<noteq> Undefined" "json_of (categoria (snd e)) = categoria (snd e)"
    by (auto simp: entry_ok_def json_value_def)
  from assms show ?thesis
    by (simp add: from_record_def entry_record_props field_ok_survives c Producto_def
        entry_ok_def)
qed

lemma not_nullish_entry_record: "\<not> nullish (json_of (entry_record p))"
  by (simp add: entry_record_def)

lemma cantidad_from_record: "cantidad (from_record ob) = get_prop ob ''cantidad''"
  by (simp add: from_record_def Producto_def)

lemma getId_from_record: "getId (from_record ob) = get_prop ob ''id''"
  by (simp add: from_record_def Producto_def)

lemma precio_from_record: "precio (from_record ob) = get_prop ob ''precio''"
  by (simp add: from_record_def Producto_def)

lemma nombre_from_record: "nombre (from_record ob) = get_prop ob ''nombre''"
  by (simp add: from_record_def Producto_def)

lemma categoria_from_record:
  "categoria (from_record ob) =
   (if get_prop ob ''categoria'' = Undefined then Str ''general'' else get_prop ob ''categoria'')"
  by (simp add: from_record_def Producto_def)

lemma fields_reloaded:
  "field_ok (nombre p) \<Longrightarrow> nombre (from_record (json_of (entry_record p))) = nombre p"
  "field_ok (precio p) \<Longrightarrow> precio (from_record (json_of (entry_record p))) = precio p"
  "field_ok (cantidad p) \<Longrightarrow> cantidad (from_record (json_of (entry_record p))) = cantidad p"
  "json_value (categoria p) \<Longrightarrow> categoria (from_record (json_of (entry_record p))) = categoria p"
  by (auto simp: nombre_from_record precio_from_record cantidad_from_record
      categoria_from_record entry_record_props field_ok_def json_value_def)

lemma getId_reloaded:
  "field_ok (getId p) \<Longrightarrow> getId (from_record (json_of (entry_record p))) = getId p"
  by (simp add: getId_from_record entry_record_props field_ok_survives)

lemma non_finite_json_of: "non_finite v \<Longrightarrow> v \<noteq> Undefined \<and> json_of v = Null"
  by (auto simp: non_finite_def)

lemma cantidad_reloaded:
  "non_finite (cantidad p) \<Longrightarrow> cantidad (from_record (json_of (entry_record p))) = Null"
  by (simp add: cantidad_from_record entry_record_props non_finite_json_of)

lemma precio_reloaded:
  "non_finite (precio p) \<Longrightarrow> precio (from_record (json_of (entry_record p))) = Null"
  by (simp add: precio_from_record entry_record_props non_finite_json_of)

lemma load_loop_reloaded:
  "list_all (\<lambda>e. fst e = getId (snd e) \<and> field_ok (getId (snd e))) m \<Longrightarrow> keys_once m \<Longrightarrow>
   \<forall>e\<in>set m. \<not> map_has (items w) (fst e) \<Longrightarrow>
   items (load_loop (map json_of (map entry_record (map snd m))) w) =
   items w @ map (\<lambda>e. (fst e, from_record (json_of (entry_record (snd e))))) m"
proof (induction m arbitrary: w)
  case Nil
  then show ?case by simp
next
  case (Cons e m)
  let ?p = "from_record (json_of (entry_record (snd e)))"
  let ?w = "w\<lparr>items := items w @ [(fst e, ?p)]\<rparr>"
  from Cons.prems have k: "getId ?p = fst e"
    by (simp add: getId_reloaded)
  from Cons.prems have fresh: "\<not> map_has (items w) (fst e)" by simp
  have "\<forall>e'\<in>set m. \<not> map_has (items ?w) (fst e')"
  proof
    fix e' assume e': "e' \<in> set m"
    with Cons.prems have "\<not> map_has (items w) (fst e')" by simp
    moreover from Cons.prems e' have "\<not> same_value_zero (fst e') (fst e)"
      by (auto simp: map_has_def list_ex_iff)
    then have "\<not> same_value_zero (fst e) (fst e')"
      by (auto simp: same_value_zero_def)
    ultimately show "\<not> map_has (items ?w) (fst e')"
      by (auto simp: map_has_def)
  qed
  with Cons.IH [of ?w] Cons.prems
  have "items (load_loop (map json_of (map entry_record (map snd m))) ?w) =
      items ?w @ map (\<lambda>e. (fst e, from_record (json_of (entry_record (snd e))))) m"
    by simp
  moreover have "map_set (items w) (getId ?p) ?p = items w @ [(fst e, ?p)]"
    unfolding k using fresh by (simp add: map_set_append)
  ultimately show ?case
    by (simp add: not_nullish_entry_record Let_def)
qed

lemma reload_items:
  assumes "ids_ok w" and "storage w = Working"
  shows "items (Carrito (saveToStorage w)) =
         map (\<lambda>e. (fst e, from_record (json_of (entry_record (snd e))))) (items w)"
proof -
  from assms(1) have "items (load_loop (map json_of (map entry_record (map snd (items w))))
      (saveToStorage w\<lparr>items := []\<rparr>)) =
      [] @ map (\<lambda>e. (fst e, from_record (json_of (entry_record (snd e))))) (items w)"
    using load_loop_reloaded [of "items w" "saveToStorage w\<lparr>items := []\<rparr>"]
    by (simp add: map_has_def ids_ok_def)
  with assms(2) show ?thesis
    by (simp add: Carrito_def loadFromStorage_def saveToStorage_def JSON_stringify_def
        getItemsArray_def Let_def)
qed

lemma cart_ok_ids_ok: "cart_ok w \<Longrightarrow> ids_ok w"
  by (auto simp: cart_ok_def ids_ok_def entry_ok_def list_all_iff)

text \<open>An entry of the data model (strings, a finite price and a finite quantity) holds
  only values that JSON carries.\<close>

lemma entry_ok_typed:
  "entry_ok (Str i, \<lparr>getId = Str i, nombre = Str n, precio = Num (Fin p),
      categoria = Str c, cantidad = Num (Fin q)\<rparr>)"
  by (simp add: entry_ok_def field_ok_def json_value_def)

text \<open>
  Claim C5, as stated. A record stored without \<open>cantidad\<close> hydrates to an entry with an
  undefined quantity; the increase button calls \<open>updateQty(id, p.cantidad + 1)\<close>, that is
  \<open>updateQty(id, NaN)\<close>, and \<open>NaN <= 0\<close> is false, so the entry stays with quantity \<open>NaN\<close>.
  \<open>JSON.stringify\<close> writes \<open>NaN\<close> as \<open>null\<close>: after serialising and deserialising, the
  quantity is \<open>null\<close>, not \<open>NaN\<close>.
\<close>

theorem codec_changes_NaN_quantity:
  "map (\<lambda>e. cantidad (snd e)) (items (Carrito \<lparr>items = [],
      stored = Some (JsonText (Arr [Obj [(''id'', Str ''p1''), (''nombre'', Str ''Cupcake''),
        (''precio'', Num (Fin 5))]])),
      storage = Working, console = []\<rparr>)) = [Undefined] \<and>
   js_plus Undefined (Num (Fin 1)) = Some NaN \<and>
   map_option (\<lambda>w. map (\<lambda>e. cantidad (snd e)) (items w))
     (updateQty (Str ''p1'') (Num NaN) (Carrito \<lparr>items = [],
        stored = Some (JsonText (Arr [Obj [(''id'', Str ''p1''), (''nombre'', Str ''Cupcake''),
          (''precio'', Num (Fin 5))]])),
        storage = Working, console = []\<rparr>)) = Some [Num NaN] \<and>
   map_option (\<lambda>w. map (\<lambda>e. cantidad (snd e)) (items (Carrito (saveToStorage w))))
     (updateQty (Str ''p1'') (Num NaN) (Carrito \<lparr>items = [],
        stored = Some (JsonText (Arr [Obj [(''id'', Str ''p1''), (''nombre'', Str ''Cupcake''),
          (''precio'', Num (Fin 5))]])),
        storage = Working, console = []\<rparr>)) = Some [Null]"
  by (simp add: Carrito_def loadFromStorage_def from_record_def Producto_def
      updateQty_def saveToStorage_def JSON_stringify_def getItemsArray_def entry_record_def
      map_has_def map_get_def same_value_zero_def js_plus_def js_le0_def Let_def)

text \<open>
  Claim C5, amended. Take a working storage. For a cart whose entries hold values that
  JSON carries (strings, finite numbers, booleans, \<open>null\<close>, arrays and objects of these;
  an id, name, price or quantity may also be \<open>undefined\<close>), saving and then building a
  fresh cart from the storage gives the same entries, in the same order. For a cart whose
  ids are such values, the reloaded cart has the same ids in the same order; a quantity
  or price that is \<open>NaN\<close> or infinite comes back as \<open>null\<close>, and every field that JSON
  carries comes back unchanged.
\<close>

theorem codec_round_trip:
  assumes "storage w = Working"
  shows "(cart_ok w \<longrightarrow> items (Carrito (saveToStorage w)) = items w) \<and>
         (ids_ok w \<longrightarrow>
            list_all2 (\<lambda>e e'. fst e' = fst e \<and> getId (snd e') = getId (snd e) \<and>
                (non_finite (cantidad (snd e)) \<longrightarrow> cantidad (snd e') = Null) \<and>
                (non_finite (precio (snd e)) \<longrightarrow> precio (snd e') = Null) \<and>
                (field_ok (nombre (snd e)) \<longrightarrow> nombre (snd e') = nombre (snd e)) \<and>
                (field_ok (precio (snd e)) \<longrightarrow> precio (snd e') = precio (snd e)) \<and>
                (field_ok (cantidad (snd e)) \<longrightarrow> cantidad (snd e') = cantidad (snd e)) \<and>
                (json_value (categoria (snd e)) \<longrightarrow> categoria (snd e') = categoria (snd e)) \<and>
                (entry_ok e \<longrightarrow> e' = e))
              (items w) (items (Carrito (saveToStorage w))))"
proof (intro conjI impI)
  assume c: "cart_ok w"
  then have "\<forall>e\<in>set (items w). (fst e, from_record (json_of (entry_record (snd e)))) = e"
    by (auto simp: cart_ok_def list_all_iff from_record_entry_record)
  then have "map (\<lambda>e. (fst e, from_record (json_of (entry_record (snd e))))) (items w) = items w"
    by (simp add: map_idI)
  with reload_items [OF cart_ok_ids_ok [OF c] assms] show "items (Carrito (saveToStorage w)) = items w"
    by simp
next
  assume i: "ids_ok w"
  have "\<forall>e\<in>set (items w).
      fst e = fst e \<and> getId (from_record (json_of (entry_record (snd e)))) = getId (snd e) \<and>
      (non_finite (cantidad (snd e)) \<longrightarrow>
         cantidad (from_record (json_of (entry_record (snd e)))) = Null) \<and>
      (non_finite (precio (snd e)) \<longrightarrow>
         precio (from_record (json_of (entry_record (snd e)))) = Null) \<and>
      (field_ok (nombre (snd e)) \<longrightarrow>
         nombre (from_record (json_of (entry_record (snd e)))) = nombre (snd e)) \<and>
      (field_ok (precio (snd e)) \<longrightarrow>
         precio (from_record (json_of (entry_record (snd e)))) = precio (snd e)) \<and>
      (field_ok (cantidad (snd e)) \<longrightarrow>
         cantidad (from_record (json_of (entry_record (snd e)))) = cantidad (snd e)) \<and>
      (json_value (categoria (snd e)) \<longrightarrow>
         categoria (from_record (json_of (entry_record (snd e)))) = categoria (snd e)) \<and>
      (entry_ok e \<longrightarrow> (fst e, from_record (json_of (entry_record (snd e)))) = e)"
    using i
    by (auto simp: ids_ok_def list_all_iff getId_reloaded cantidad_reloaded precio_reloaded
        fields_reloaded from_record_entry_record)
  then show "list_all2 (\<lambda>e e'. fst e' = fst e \<and> getId (snd e') = getId (snd e) \<and>
                (non_finite (cantidad (snd e)) \<longrightarrow> cantidad (snd e') = Null) \<and>
                (non_finite (precio (snd e)) \<longrightarrow> precio (snd e') = Null) \<and>
                (field_ok (nombre (snd e)) \<longrightarrow> nombre (snd e') = nombre (snd e)) \<and>
                (field_ok (precio (snd e)) \<longrightarrow> precio (snd e') = precio (snd e)) \<and>
                (field_ok (cantidad (snd e)) \<longrightarrow> cantidad (snd e') = cantidad (snd e)) \<and>
                (json_value (categoria (snd e)) \<longrightarrow> categoria (snd e') = categoria (snd e)) \<and>
                (entry_ok e \<longrightarrow> e' = e))
              (items w) (items (Carrito (saveToStorage w)))"
    by (simp add: reload_items [OF i assms] list_all2_map2 list_all2_same)
qed

theorem codec_round_trip_witness:
  "cart_ok \<lparr>items =
        [(Str ''p1'', \<lparr>getId = Str ''p1'', nombre = Str ''Cupcake'', precio = Num (Fin 5),
            categoria = Str ''general'', cantidad = Num (Fin 2)\<rparr>),
         (Str ''p2'', \<lparr>getId = Str ''p2'', nombre = Str ''Torta'', precio = Num (Fin 300),
            categoria = Str ''tortas'', cantidad = Num (Fin 1)\<rparr>)],
      stored = None, storage = Working, console = []\<rparr> \<and>
   items (Carrito (saveToStorage \<lparr>items =
        [(Str ''p1'', \<lparr>getId = Str ''p1'', nombre = Str ''Cupcake'', precio = Num (Fin 5),
            categoria = Str ''general'', cantidad = Num (Fin 2)\<rparr>),
         (Str ''p2'', \<lparr>getId = Str ''p2'', nombre = Str ''Torta'', precio = Num (Fin 300),
            categoria = Str ''tortas'', cantidad = Num (Fin 1)\<rparr>)],
      stored = None, storage = Working, console = []\<rparr>)) =
     [(Str ''p1'', \<lparr>getId = Str ''p1'', nombre = Str ''Cupcake'', precio = Num (Fin 5),
          categoria = Str ''general'', cantidad = Num (Fin 2)\<rparr>),
      (Str ''p2'', \<lparr>getId = Str ''p2'', nombre = Str ''Torta'', precio = Num (Fin 300),
          categoria = Str ''tortas'', cantidad = Num (Fin 1)\<rparr>)] \<and>
   ids_ok \<lparr>items =
        [(Str ''p1'', \<lparr>getId = Str ''p1'', nombre = Str ''Cupcake'', precio = Num (Fin 5),
            categoria = Str ''general'', cantidad = Num NaN\<rparr>),
         (Str ''p2'', \<lparr>getId = Str ''p2'', nombre = Str ''Torta'', precio = Num PInf,
            categoria = Str ''tortas'', cantidad = Num (Fin 1)\<rparr>)],
      stored = None, storage = Working, console = []\<rparr> \<and>
   items (Carrito (saveToStorage \<lparr>items =
        [(Str ''p1'', \<lparr>getId = Str ''p1'', nombre = Str ''Cupcake'', precio = Num (Fin 5),
            categoria = Str ''general'', cantidad = Num NaN\<rparr>),
         (Str ''p2'', \<lparr>getId = Str ''p2'', nombre = Str ''Torta'', precio = Num PInf,
            categoria = Str ''tortas'', cantidad = Num (Fin 1)\<rparr>)],
      stored = None, storage = Working, console = []\<rparr>)) =
     [(Str ''p1'', \<lparr>getId = Str ''p1'', nombre = Str ''Cupcake'', precio = Num (Fin 5),
          categoria = Str ''general'', cantidad = Null\<rparr>),
      (Str ''p2'', \<lparr>getId = Str ''p2'', nombre = Str ''Torta'', precio = Null,
          categoria = Str ''tortas'', cantidad = Num (Fin 1)\<rparr>)]"
proof -
  let ?a = "\<lparr>items =
        [(Str ''p1'', \<lparr>getId = Str ''p1'', nombre = Str ''Cupcake'', precio = Num (Fin 5),
            categoria = Str ''general'', cantidad = Num (Fin 2)\<rparr>),
         (Str ''p2'', \<lparr>getId = Str ''p2'', nombre = Str ''Torta'', precio = Num (Fin 300),
            categoria = Str ''tortas'', cantidad = Num (Fin 1)\<rparr>)],
      stored = None, storage = Working, console = []\<rparr>"
  let ?b = "\<lparr>items =
        [(Str ''p1'', \<lparr>getId = Str ''p1'', nombre = Str ''Cupcake'', precio = Num (Fin 5),
            categoria = Str ''general'', cantidad = Num NaN\<rparr>),
         (Str ''p2'', \<lparr>getId = Str ''p2'', nombre = Str ''Torta'', precio = Num PInf,
            categoria = Str ''tortas'', cantidad = Num (Fin 1)\<rparr>)],
      stored = None, storage = Working, console = []\<rparr>"
  have s: "storage ?a = Working" "storage ?b = Working" by simp_all
  have c: "cart_ok ?a"
    by (simp add: cart_ok_def entry_ok_def field_ok_def json_value_def map_has_def
        same_value_zero_def)
  have i: "ids_ok ?b"
    by (simp add: ids_ok_def field_ok_def json_value_def map_has_def same_value_zero_def)
  from codec_round_trip [OF s(1)] c have a: "items (Carrito (saveToStorage ?a)) = items ?a"
    by blast
  from codec_round_trip [OF s(2)] i
  have "list_all2 (\<lambda>e e'. fst e' = fst e \<and> getId (snd e') = getId (snd e) \<and>
                (non_finite (cantidad (snd e)) \<longrightarrow> cantidad (snd e') = Null) \<and>
                (non_finite (precio (snd e)) \<longrightarrow> precio (snd e') = Null) \<and>
                (field_ok (nombre (snd e)) \<longrightarrow> nombre (snd e') = nombre (snd e)) \<and>
                (field_ok (precio (snd e)) \<longrightarrow> precio (snd e') = precio (snd e)) \<and>
                (field_ok (cantidad (snd e)) \<longrightarrow> cantidad (snd e') = cantidad (snd e)) \<and>
                (json_value (categoria (snd e)) \<longrightarrow> categoria (snd e') = categoria (snd e)) \<and>
                (entry_ok e \<longrightarrow> e' = e))
              (items ?b) (items (Carrito (saveToStorage ?b)))"
    by blast
  then have b: "items (Carrito (saveToStorage ?b)) =
     [(Str ''p1'', \<lparr>getId = Str ''p1'', nombre = Str ''Cupcake'', precio = Num (Fin 5),
          categoria = Str ''general'', cantidad = Null\<rparr>),
      (Str ''p2'', \<lparr>getId = Str ''p2'', nombre = Str ''Torta'', precio = Null,
          categoria = Str ''tortas'', cantidad = Num (Fin 1)\<rparr>)]"
    by (auto simp: list_all2_Cons1 non_finite_def field_ok_def json_value_def prod_eq_iff
        intro!: producto.equality)
  from a b c i show ?thesis by simp
qed

section \<open>The quantity invariant\<close>

lemma whole_count_cases: "whole_count v \<Longrightarrow> \<exists>q. v = Num (Fin q)"
  by (auto simp: whole_count_def split: jsval.splits number.splits)

lemma whole_cases: "whole v \<Longrightarrow> \<exists>q. v = Num (Fin q) \<and> of_int \<lfloor>q\<rfloor> = q"
  by (auto simp: whole_def split: jsval.splits number.splits)

lemma whole_count_succ: "whole_count (Num (Fin q)) \<Longrightarrow> whole_count (Num (Fin (q + 1)))"
  by (auto simp: whole_count_def)

lemma whole_positive: "of_int \<lfloor>q\<rfloor> = q \<Longrightarrow> \<not> q \<le> 0 \<Longrightarrow> whole_count (Num (Fin (q::rat)))"
proof -
  assume a: "of_int \<lfloor>q\<rfloor> = q" and b: "\<not> q \<le> 0"
  then have "0 < \<lfloor>q\<rfloor>" by (metis not_le of_int_0_less_iff)
  then have "1 \<le> \<lfloor>q\<rfloor>" by simp
  then have "(1::rat) \<le> of_int \<lfloor>q\<rfloor>" by (metis of_int_1_le_iff)
  with a show ?thesis by (simp add: whole_count_def)
qed

lemma list_all_map_set:
  "list_all (\<lambda>e. Q (snd e)) m \<Longrightarrow> Q v \<Longrightarrow> list_all (\<lambda>e. Q (snd e)) (map_set m k v)"
  by (induction m) auto

lemma list_all_map_delete:
  "list_all Q m \<Longrightarrow> list_all Q (map_delete m k)"
  by (simp add: map_delete_def list_all_iff)

lemma map_get_list_all:
  "map_get m k = Some v \<Longrightarrow> list_all (\<lambda>e. Q (snd e)) m \<Longrightarrow> Q v"
  by (induction m) (auto simp: map_get_def split: if_splits)

lemma quantities_ok_map_set:
  "quantities_ok w \<Longrightarrow> whole_count (cantidad v) \<Longrightarrow>
   quantities_ok (w\<lparr>items := map_set (items w) k v\<rparr>)"
  using list_all_map_set [where Q = "\<lambda>p. whole_count (cantidad p)"]
  by (simp add: quantities_ok_def)

lemma quantities_ok_load_loop:
  "list_all (\<lambda>ob. whole_count (get_prop ob ''cantidad'')) obs \<Longrightarrow> quantities_ok w \<Longrightarrow>
   quantities_ok (load_loop obs w)"
proof (induction obs arbitrary: w)
  case Nil
  then show ?case by simp
next
  case (Cons ob obs)
  show ?case
  proof (cases "nullish ob")
    case True
    with Cons.prems show ?thesis by (simp add: load_error_def quantities_ok_def)
  next
    case False
    let ?w = "w\<lparr>items := map_set (items w) (getId (from_record ob)) (from_record ob)\<rparr>"
    from Cons.prems have "whole_count (cantidad (from_record ob))"
      by (simp add: cantidad_from_record)
    with Cons.prems have "quantities_ok ?w"
      by (simp add: quantities_ok_map_set)
    with Cons.prems have "quantities_ok (load_loop obs ?w)"
      by (intro Cons.IH) simp_all
    with False show ?thesis by (simp add: Let_def)
  qed
qed

lemma quantities_ok_Carrito:
  "persisted_ok w \<Longrightarrow> quantities_ok (Carrito w) \<and> persisted_ok (Carrito w)"
proof
  assume p: "persisted_ok w"
  have e: "quantities_ok (w\<lparr>items := []\<rparr>)" by (simp add: quantities_ok_def)
  have l: "quantities_ok (load_error (w\<lparr>items := []\<rparr>))"
    by (simp add: quantities_ok_def load_error_def)
  from p e l show "quantities_ok (Carrito w)"
    by (auto simp: Carrito_def loadFromStorage_def persisted_ok_def
        intro!: quantities_ok_load_loop split: option.splits)
  from p show "persisted_ok (Carrito w)"
    using loadFromStorage_stored [of "w\<lparr>items := []\<rparr>"]
    by (simp add: persisted_ok_def Carrito_def)
qed

lemma whole_count_saved:
  assumes "whole_count (cantidad p)"
  shows "whole_count (get_prop (json_of (entry_record p)) ''cantidad'')"
proof -
  from assms obtain q where "cantidad p = Num (Fin q)"
    using whole_count_cases by blast
  then have "get_prop (json_of (entry_record p)) ''cantidad'' = cantidad p"
    by (simp add: entry_record_props)
  with assms show ?thesis by simp
qed

lemma persisted_ok_saveToStorage:
  "quantities_ok w \<Longrightarrow> persisted_ok w \<Longrightarrow>
   quantities_ok (saveToStorage w) \<and> persisted_ok (saveToStorage w)"
  by (auto simp: saveToStorage_def quantities_ok_def persisted_ok_def JSON_stringify_def
      getItemsArray_def Let_def list_all_iff whole_count_saved)

lemma persisted_ok_items: "persisted_ok (w\<lparr>items := m\<rparr>) = persisted_ok w"
  by (simp add: persisted_ok_def)

lemma call_on_keeps:
  assumes "quantities_ok w" and "persisted_ok w" and "call_typed c"
  shows "\<exists>w'. call_on c w = Some w' \<and> quantities_ok w' \<and> persisted_ok w'"
proof (cases c)
  case (Add p)
  with assms(3) have fresh: "cantidad p = Num (Fin 1)" by simp
  show ?thesis
  proof (cases "map_has (items w) (getId p)")
    case True
    then obtain p0 where g: "map_get (items w) (getId p) = Some p0"
      by (auto simp: map_has_get)
    with assms(1) have "whole_count (cantidad p0)"
      by (auto simp: quantities_ok_def dest: map_get_list_all)
    then obtain q where q: "cantidad p0 = Num (Fin q)" "whole_count (Num (Fin (q + 1)))"
      using whole_count_cases [of "cantidad p0"] whole_count_succ by force
    let ?w = "w\<lparr>items := map_set (items w) (getId p) (p0\<lparr>cantidad := Num (Fin (q + 1))\<rparr>)\<rparr>"
    from True g q have a: "add p w = Some (saveToStorage ?w)"
      by (simp add: add_def js_plus_def)
    from assms(1) q have "quantities_ok ?w"
      by (simp add: quantities_ok_map_set)
    with assms(2) a Add show ?thesis
      by (simp add: persisted_ok_saveToStorage persisted_ok_items)
  next
    case False
    let ?w = "w\<lparr>items := map_set (items w) (getId p) p\<rparr>"
    from False have a: "add p w = Some (saveToStorage ?w)"
      by (simp add: add_def)
    from assms(1) fresh have "quantities_ok ?w"
      by (simp add: quantities_ok_map_set whole_count_def)
    with assms(2) a Add show ?thesis
      by (simp add: persisted_ok_saveToStorage persisted_ok_items)
  qed
next
  case (Remove i)
  from assms(1) have "quantities_ok (w\<lparr>items := map_delete (items w) i\<rparr>)"
    by (simp add: quantities_ok_def list_all_map_delete)
  with assms(2) Remove show ?thesis
    by (simp add: remove_id_def persisted_ok_saveToStorage persisted_ok_items)
next
  case (UpdateQty i qty)
  with assms(3) obtain q where q: "qty = Num (Fin q)" "of_int \<lfloor>q\<rfloor> = q"
    by (auto dest!: whole_cases)
  show ?thesis
  proof (cases "map_has (items w) i")
    case False
    with assms UpdateQty show ?thesis by (simp add: updateQty_def)
  next
    case True
    then obtain p0 where g: "map_get (items w) i = Some p0"
      by (auto simp: map_has_get)
    let ?m = "map_set (items w) i (p0\<lparr>cantidad := qty\<rparr>)"
    let ?w = "w\<lparr>items := (if q \<le> 0 then map_delete ?m i else ?m)\<rparr>"
    from True g q have u: "updateQty i qty w = Some (saveToStorage ?w)"
      by (simp add: updateQty_def js_le0_Num)
    have "quantities_ok ?w"
    proof (cases "q \<le> 0")
      case True
      with \<open>map_has (items w) i\<close> assms(1) show ?thesis
        by (simp add: quantities_ok_def map_delete_set list_all_map_delete)
    next
      case False
      with q have "whole_count qty" by (simp add: whole_positive)
      with False assms(1) show ?thesis
        by (simp add: quantities_ok_map_set)
    qed
    with assms(2) u UpdateQty show ?thesis
      by (simp add: persisted_ok_saveToStorage persisted_ok_items)
  qed
next
  case Clear
  have "quantities_ok (w\<lparr>items := []\<rparr>)" by (simp add: quantities_ok_def)
  with assms(2) Clear show ?thesis
    by (simp add: clear_def persisted_ok_saveToStorage persisted_ok_items)
next
  case Reload
  with assms(2) show ?thesis by (simp add: quantities_ok_Carrito)
qed

lemma calls_keep:
  "quantities_ok w \<Longrightarrow> persisted_ok w \<Longrightarrow> list_all call_typed cs \<Longrightarrow>
   \<exists>w'. calls cs w = Some w' \<and> quantities_ok w' \<and> persisted_ok w'"
proof (induction cs arbitrary: w)
  case Nil
  then show ?case by simp
next
  case (Cons c cs)
  then obtain w1 where "call_on c w = Some w1" "quantities_ok w1" "persisted_ok w1"
    using call_on_keeps [of w c] by auto
  with Cons show ?case by simp
qed

lemma updateQty_removes:
  assumes "map_has (items w) i" and "num_le0 n"
  shows "updateQty i (Num n) w = Some (saveToStorage (w\<lparr>items := map_delete (items w) i\<rparr>))"
proof -
  from assms(1) obtain p where "map_get (items w) i = Some p"
    by (auto simp: map_has_get)
  with assms show ?thesis
    by (simp add: updateQty_def js_le0_Num map_delete_set)
qed

text \<open>
  Claim C2, as stated. Hydration copies \<open>cantidad\<close> as it is stored: a stored record with
  quantity 0 becomes an entry with quantity 0. And \<open>updateQty\<close> only removes at \<open><= 0\<close>:
  \<open>updateQty(id, 0.5)\<close> leaves an entry with quantity \<open>0.5\<close>.
\<close>

theorem hydration_breaks_quantity_invariant:
  "map (\<lambda>e. cantidad (snd e)) (items (Carrito \<lparr>items = [],
      stored = Some (JsonText (Arr [Obj [(''id'', Str ''p1''), (''nombre'', Str ''Cupcake''),
        (''precio'', Num (Fin 5)), (''categoria'', Str ''general''),
        (''cantidad'', Num (Fin 0))]])),
      storage = Working, console = []\<rparr>)) = [Num (Fin 0)] \<and>
   \<not> quantities_ok (Carrito \<lparr>items = [],
      stored = Some (JsonText (Arr [Obj [(''id'', Str ''p1''), (''nombre'', Str ''Cupcake''),
        (''precio'', Num (Fin 5)), (''categoria'', Str ''general''),
        (''cantidad'', Num (Fin 0))]])),
      storage = Working, console = []\<rparr>) \<and>
   map_option (\<lambda>w. map (\<lambda>e. cantidad (snd e)) (items w))
     (updateQty (Str ''p1'') (Num (Fin (1 / 2)))
        \<lparr>items = [(Str ''p1'', Producto (Str ''p1'') (Str ''Cupcake'') (Num (Fin 5)) Undefined)],
         stored = None, storage = Working, console = []\<rparr>) = Some [Num (Fin (1 / 2))]"
  by (simp add: Carrito_def loadFromStorage_def from_record_def Producto_def quantities_ok_def
      whole_count_def updateQty_def saveToStorage_def map_has_def map_get_def
      same_value_zero_def js_le0_def Let_def)

text \<open>
  Claim C2, amended. Let every record of the stored text have a whole quantity of at
  least 1, let \<open>add\<close> be called with products fresh from the constructor and \<open>updateQty\<close>
  with whole numbers. Then every sequence of \<open>add\<close>, \<open>remove\<close>, \<open>updateQty\<close>, \<open>clear\<close> and
  page loads runs to the end, and in the cart it reaches every quantity is a whole number
  of at least 1; there, \<open>updateQty\<close> with a number \<open>n <= 0\<close> removes the entry.
\<close>

theorem whole_quantities_invariant:
  assumes "persisted_ok w0" and "list_all call_typed cs"
  shows "\<exists>w. calls cs (Carrito w0) = Some w \<and> quantities_ok w \<and>
           (\<forall>i n. map_has (items w) i \<and> num_le0 n \<longrightarrow>
              (\<exists>w'. updateQty i (Num n) w = Some w' \<and> \<not> map_has (items w') i \<and>
                    quantities_ok w'))"
proof -
  from assms(1) have "quantities_ok (Carrito w0)" "persisted_ok (Carrito w0)"
    by (simp_all add: quantities_ok_Carrito)
  with assms(2) obtain w where w: "calls cs (Carrito w0) = Some w" "quantities_ok w"
    using calls_keep by blast
  have "\<exists>w'. updateQty i (Num n) w = Some w' \<and> \<not> map_has (items w') i \<and> quantities_ok w'"
    if "map_has (items w) i \<and> num_le0 n" for i n
  proof -
    from that have h: "map_has (items w) i" and l: "num_le0 n" by simp_all
    from h have "same_value_zero i i" by (rule map_has_self)
    with w(2) show ?thesis
      by (simp add: updateQty_removes [OF h l] items_saveToStorage map_has_delete
          quantities_ok_def list_all_map_delete)
  qed
  with w show ?thesis by blast
qed

theorem whole_quantities_invariant_witness:
  "persisted_ok \<lparr>items = [],
      stored = Some (JsonText (Arr [Obj [(''id'', Str ''p1''), (''nombre'', Str ''Cupcake''),
        (''precio'', Num (Fin 5)), (''categoria'', Str ''general''),
        (''cantidad'', Num (Fin 2))]])),
      storage = Working, console = []\<rparr> \<and>
   list_all call_typed
     [Add (Producto (Str ''p1'') (Str ''Cupcake'') (Num (Fin 5)) Undefined),
      UpdateQty (Str ''p1'') (Num (Fin 5)),
      Add (Producto (Str ''p2'') (Str ''Torta'') (Num (Fin 300)) Undefined),
      UpdateQty (Str ''p2'') (Num (Fin 0)), Reload] \<and>
   map_option (\<lambda>w. map (\<lambda>e. cantidad (snd e)) (items w))
     (calls
       [Add (Producto (Str ''p1'') (Str ''Cupcake'') (Num (Fin 5)) Undefined),
        UpdateQty (Str ''p1'') (Num (Fin 5)),
        Add (Producto (Str ''p2'') (Str ''Torta'') (Num (Fin 300)) Undefined),
        UpdateQty (Str ''p2'') (Num (Fin 0)), Reload]
       (Carrito \<lparr>items = [],
          stored = Some (JsonText (Arr [Obj [(''id'', Str ''p1''), (''nombre'', Str ''Cupcake''),
            (''precio'', Num (Fin 5)), (''categoria'', Str ''general''),
            (''cantidad'', Num (Fin 2))]])),
          storage = Working, console = []\<rparr>)) = Some [Num (Fin 5)]"
proof -
  have p: "persisted_ok \<lparr>items = [],
      stored = Some (JsonText (Arr [Obj [(''id'', Str ''p1''), (''nombre'', Str ''Cupcake''),
        (''precio'', Num (Fin 5)), (''categoria'', Str ''general''),
        (''cantidad'', Num (Fin 2))]])),
      storage = Working, console = []\<rparr>"
    by (simp add: persisted_ok_def whole_count_def)
  have t: "list_all call_typed
     [Add (Producto (Str ''p1'') (Str ''Cupcake'') (Num (Fin 5)) Undefined),
      UpdateQty (Str ''p1'') (Num (Fin 5)),
      Add (Producto (Str ''p2'') (Str ''Torta'') (Num (Fin 300)) Undefined),
      UpdateQty (Str ''p2'') (Num (Fin 0)), Reload]"
    by (simp add: Producto_def whole_def)
  show ?thesis
    using p t whole_quantities_invariant [OF p t]
    by (simp add: Carrito_def loadFromStorage_def from_record_def Producto_def add_def
        updateQty_def saveToStorage_def JSON_stringify_def getItemsArray_def entry_record_def
        map_has_def map_get_def map_delete_def same_value_zero_def js_plus_def js_le0_def
        Let_def)
qed

end
